theory Spec2Isabelle
  imports Complex_Main "HOL-Library.Word" "HOL-Library.Monad_Syntax"
begin

unbundle bit_operations_syntax

section \<open>Single-precision floats\<close>

text \<open>
  The program computes on C++ \<^verbatim>\<open>float\<close>, the IEEE 754 binary32 format. A float is
  modelled as the 32-bit pattern the buffers hold: bit 31 is the sign, bits 30..23 the
  biased exponent, bits 22..0 the fraction. Arithmetic is the default arithmetic of the
  SSE unit: every operation is computed exactly and rounded once, to nearest, ties to
  even, with gradual underflow, overflow to infinity and quiet NaNs.

  Every finite float is a whole multiple of \<open>2 ^ -149\<close>, the smallest subnormal; the
  model counts magnitudes in that unit, so that exact sums and products are natural
  numbers.
\<close>

type_synonym f32 = "32 word"

definition f32_sign :: "f32 \<Rightarrow> bool" where
  "f32_sign a = bit a 31"

definition f32_exp :: "f32 \<Rightarrow> nat" where
  "f32_exp a = unat (drop_bit 23 a AND 0xFF)"

definition f32_frac :: "f32 \<Rightarrow> nat" where
  "f32_frac a = unat (a AND 0x7FFFFF)"

definition f32_is_nan :: "f32 \<Rightarrow> bool" where
  "f32_is_nan a = (f32_exp a = 255 \<and> f32_frac a \<noteq> 0)"

definition f32_is_inf :: "f32 \<Rightarrow> bool" where
  "f32_is_inf a = (f32_exp a = 255 \<and> f32_frac a = 0)"

text \<open>The magnitude of a finite float, in units of \<open>2 ^ -149\<close>.\<close>

definition f32_mag :: "f32 \<Rightarrow> nat" where
  "f32_mag a = (if f32_exp a = 0 then f32_frac a
                else (2 ^ 23 + f32_frac a) * 2 ^ (f32_exp a - 1))"

definition f32_smag :: "f32 \<Rightarrow> int" where
  "f32_smag a = (if f32_sign a then - int (f32_mag a) else int (f32_mag a))"

text \<open>The real number a finite float stands for.\<close>

definition f32_val :: "f32 \<Rightarrow> real" where
  "f32_val a = real_of_int (f32_smag a) / 2 ^ 149"

text \<open>The number of binary digits of a natural number.\<close>

function bit_length :: "nat \<Rightarrow> nat" where
  "bit_length n = (if n = 0 then 0 else Suc (bit_length (n div 2)))"
  by pat_completeness auto
termination
  by (relation "measure id") auto

declare bit_length.simps [simp del]

text \<open>\<open>n / d\<close> rounded to the nearest natural number, a tie to the even one.\<close>

definition round_even :: "nat \<Rightarrow> nat \<Rightarrow> nat" where
  "round_even n d =
     (let q = n div d; r = n mod d
      in if 2 * r < d then q
         else if d < 2 * r then q + 1
         else if even q then q else q + 1)"

definition f32_sign_bit :: "bool \<Rightarrow> f32" where
  "f32_sign_bit s = (if s then 0x80000000 else 0)"

text \<open>
  Rounding the exact magnitude \<open>n / d\<close> (in units of \<open>2 ^ -149\<close>) to a float of sign
  \<open>s\<close>. With \<open>sh\<close> the number of digits beyond the 24 a significand holds, the result
  is \<open>m * 2 ^ sh\<close> for the rounded significand \<open>m \<le> 2 ^ 24\<close>. Its bit pattern is
  \<open>sh * 2 ^ 23 + m\<close>: a subnormal (\<open>sh = 0\<close>, \<open>m < 2 ^ 23\<close>) has exponent field 0 and
  fraction \<open>m\<close>; a normal number has exponent field \<open>sh + 1\<close> and fraction
  \<open>m - 2 ^ 23\<close>; and \<open>m = 2 ^ 24\<close> carries into the next exponent. A pattern that
  reaches the exponent field 255 has overflowed and is infinity.
\<close>

definition f32_round :: "bool \<Rightarrow> nat \<Rightarrow> nat \<Rightarrow> f32" where
  "f32_round s n d =
     (let sh = bit_length (n div d) - 24;
          m = round_even n (d * 2 ^ sh);
          b = sh * 2 ^ 23 + m
      in f32_sign_bit s OR of_nat (min b 0x7F800000))"

definition f32_quiet :: "f32 \<Rightarrow> f32" where
  "f32_quiet a = a OR 0x00400000"

definition f32_default_nan :: f32 where
  "f32_default_nan = 0xFFC00000"

text \<open>
  Addition (one lane of \<^verbatim>\<open>addps\<close>, and the scalar \<^verbatim>\<open>+\<close>). A NaN operand is returned
  quieted, the first operand before the second; infinities of opposite sign give the
  default NaN; an exact zero sum is \<open>+0\<close> unless both operands are negative.
\<close>

definition f32_add :: "f32 \<Rightarrow> f32 \<Rightarrow> f32" where
  "f32_add a b =
     (if f32_is_nan a then f32_quiet a
      else if f32_is_nan b then f32_quiet b
      else if f32_is_inf a then
        (if f32_is_inf b \<and> f32_sign a \<noteq> f32_sign b then f32_default_nan else a)
      else if f32_is_inf b then b
      else let s = f32_smag a + f32_smag b
           in if s = 0 then f32_sign_bit (f32_sign a \<and> f32_sign b)
              else f32_round (s < 0) (nat \<bar>s\<bar>) 1)"

text \<open>
  Multiplication (one lane of \<^verbatim>\<open>mulps\<close>, and the scalar \<^verbatim>\<open>*\<close>). The product of two
  magnitudes counts units of \<open>2 ^ -298\<close>, hence the denominator.
\<close>

definition f32_mul :: "f32 \<Rightarrow> f32 \<Rightarrow> f32" where
  "f32_mul a b =
     (if f32_is_nan a then f32_quiet a
      else if f32_is_nan b then f32_quiet b
      else if f32_is_inf a \<or> f32_is_inf b then
        (if f32_mag a = 0 \<or> f32_mag b = 0 then f32_default_nan
         else f32_sign_bit (f32_sign a \<noteq> f32_sign b) OR 0x7F800000)
      else f32_round (f32_sign a \<noteq> f32_sign b) (f32_mag a * f32_mag b) (2 ^ 149))"

text \<open>The conversion of an \<^verbatim>\<open>int\<close> to \<^verbatim>\<open>float\<close>, as in \<^verbatim>\<open>foo[i] = i\<close>.\<close>

definition f32_of_int :: "int \<Rightarrow> f32" where
  "f32_of_int i = f32_round (i < 0) (nat \<bar>i\<bar> * 2 ^ 149) 1"

text \<open>
  A non-negative decimal literal with the suffix \<^verbatim>\<open>f\<close>, given as the fraction
  \<open>n / d\<close> it denotes: \<^verbatim>\<open>0.1f\<close> is \<open>f32_lit 1 10\<close>. The compiler rounds it to the
  nearest float.
\<close>

definition f32_lit :: "nat \<Rightarrow> nat \<Rightarrow> f32" where
  "f32_lit n d = f32_round False (n * 2 ^ 149) d"


section \<open>Memory and the vector register\<close>

text \<open>
  \<^verbatim>\<open>main\<close> allocates nine buffers of floats with \<^verbatim>\<open>_aligned_malloc(..., 16)\<close>. They
  are separate allocations, so a pointer is a buffer together with an offset counted
  in floats (\<^verbatim>\<open>x + i\<close> is \<open>(X, i)\<close>), and the heap maps each buffer to its contents. A
  buffer that has not been allocated is empty. The base of every buffer is 16-byte
  aligned, so a pointer is 16-byte aligned exactly when its offset is a multiple of 4.
\<close>

datatype buffer = Foo | Bar | Results | Vectors | X | Y | Z | W | Dp

type_synonym heap = "buffer \<Rightarrow> f32 list"

type_synonym ptr = "buffer \<times> nat"

text \<open>
  \<^verbatim>\<open>__m128\<close>: four floats, \<open>f0\<close> being \<^verbatim>\<open>m128_f32[0]\<close>, the float at the lowest
  address.
\<close>

datatype m128 = M128 (f0: f32) (f1: f32) (f2: f32) (f3: f32)

text \<open>
  Reading or writing outside a buffer, and an aligned load or store through a pointer
  that is not 16-byte aligned, are undefined behaviour in the program: \<open>None\<close> here.
\<close>

definition mm_load_ps :: "heap \<Rightarrow> ptr \<Rightarrow> m128 option" where
  "mm_load_ps h p =
     (case p of (b, i) \<Rightarrow>
        if i mod 4 = 0 \<and> i + 4 \<le> length (h b)
        then Some (M128 (h b ! i) (h b ! (i + 1)) (h b ! (i + 2)) (h b ! (i + 3)))
        else None)"

text \<open>\<^verbatim>\<open>_mm_load1_ps\<close> reads one float and copies it into all four lanes.\<close>

definition broadcast :: "f32 \<Rightarrow> m128" where
  "broadcast v = M128 v v v v"

definition mm_load1_ps :: "heap \<Rightarrow> ptr \<Rightarrow> m128 option" where
  "mm_load1_ps h p =
     (case p of (b, i) \<Rightarrow> if i < length (h b) then Some (broadcast (h b ! i)) else None)"

definition mm_store_ps :: "heap \<Rightarrow> ptr \<Rightarrow> m128 \<Rightarrow> heap option" where
  "mm_store_ps h p v =
     (case p of (b, i) \<Rightarrow>
        if i mod 4 = 0 \<and> i + 4 \<le> length (h b)
        then Some (h(b := (h b)[i := f0 v, i + 1 := f1 v, i + 2 := f2 v, i + 3 := f3 v]))
        else None)"

definition mm_add_ps :: "m128 \<Rightarrow> m128 \<Rightarrow> m128" where
  "mm_add_ps a b =
     M128 (f32_add (f0 a) (f0 b)) (f32_add (f1 a) (f1 b))
          (f32_add (f2 a) (f2 b)) (f32_add (f3 a) (f3 b))"

definition mm_mul_ps :: "m128 \<Rightarrow> m128 \<Rightarrow> m128" where
  "mm_mul_ps a b =
     M128 (f32_mul (f0 a) (f0 b)) (f32_mul (f1 a) (f1 b))
          (f32_mul (f2 a) (f2 b)) (f32_mul (f3 a) (f3 b))"

text \<open>The scalar accesses \<^verbatim>\<open>p[i]\<close> and \<^verbatim>\<open>p[i] = v\<close>.\<close>

definition load_f32 :: "heap \<Rightarrow> ptr \<Rightarrow> f32 option" where
  "load_f32 h p = (case p of (b, i) \<Rightarrow> if i < length (h b) then Some (h b ! i) else None)"

definition store_f32 :: "heap \<Rightarrow> ptr \<Rightarrow> f32 \<Rightarrow> heap option" where
  "store_f32 h p v =
     (case p of (b, i) \<Rightarrow> if i < length (h b) then Some (h(b := (h b)[i := v])) else None)"

text \<open>
  \<^verbatim>\<open>_aligned_malloc(sizeof(float) * n, 16)\<close>. The program does not test the result, and
  the model lets the allocation succeed. Fresh memory holds indeterminate values:
  \<open>junk\<close> supplies them, and every statement below holds for any \<open>junk\<close>.
\<close>

definition aligned_malloc :: "(buffer \<Rightarrow> nat \<Rightarrow> f32) \<Rightarrow> buffer \<Rightarrow> nat \<Rightarrow> heap \<Rightarrow> heap" where
  "aligned_malloc junk b n h = h(b := map (junk b) [0..<n])"


section \<open>Loops\<close>

text \<open>
  \<^verbatim>\<open>for (int i = start; i < n; i += step) body\<close>, the body a function of the counter
  and the state that may fail. The strides of the program are 1 and 4; a stride of 0
  is refused, since it would never leave the loop.
\<close>

function for_loop :: "nat \<Rightarrow> nat \<Rightarrow> nat \<Rightarrow> (nat \<Rightarrow> 's \<Rightarrow> 's option) \<Rightarrow> 's \<Rightarrow> 's option" where
  "for_loop i n step body s =
     (if i < n \<and> 0 < step
      then (case body i s of None \<Rightarrow> None | Some s' \<Rightarrow> for_loop (i + step) n step body s')
      else Some s)"
  by pat_completeness auto
termination
  by (relation "measure (\<lambda>(i, n, step, body, s). n - i)") auto

declare for_loop.simps [simp del]

text \<open>
  The state at the head of the loop after \<open>k\<close> passes through the body, the first of
  them with the counter at \<open>i\<close>.
\<close>

fun for_iter :: "nat \<Rightarrow> (nat \<Rightarrow> 's \<Rightarrow> 's option) \<Rightarrow> nat \<Rightarrow> nat \<Rightarrow> 's \<Rightarrow> 's option" where
  "for_iter step body 0 i s = Some s"
| "for_iter step body (Suc k) i s =
     (case body i s of None \<Rightarrow> None | Some s' \<Rightarrow> for_iter step body k (i + step) s')"


section \<open>The batched dot product (structure of arrays)\<close>

text \<open>
  The body of the loop of lines 198 to 217: four aligned loads, four lane-wise
  products with the broadcast registers, the three additions, one aligned store.
\<close>

definition dp_block :: "m128 \<Rightarrow> m128 \<Rightarrow> m128 \<Rightarrow> m128 \<Rightarrow> nat \<Rightarrow> heap \<Rightarrow> heap option" where
  "dp_block x1 y1 z1 w1 i h =
     do {
       lx \<leftarrow> mm_load_ps h (X, i);
       let dx = mm_mul_ps x1 lx;
       ly \<leftarrow> mm_load_ps h (Y, i);
       let dy = mm_mul_ps y1 ly;
       lz \<leftarrow> mm_load_ps h (Z, i);
       let dz = mm_mul_ps z1 lz;
       lw \<leftarrow> mm_load_ps h (W, i);
       let dw = mm_mul_ps w1 lw;
       let dx = mm_add_ps dx dy;
       let dz = mm_add_ps dz dw;
       let dx = mm_add_ps dx dz;
       mm_store_ps h (Dp, i) dx
     }"

text \<open>The loop itself, over \<open>n\<close> floats; the program has \<open>n = 64\<close>.\<close>

definition dp_loop :: "nat \<Rightarrow> m128 \<Rightarrow> m128 \<Rightarrow> m128 \<Rightarrow> m128 \<Rightarrow> heap \<Rightarrow> heap option" where
  "dp_loop n x1 y1 z1 w1 h = for_loop 0 n 4 (dp_block x1 y1 z1 w1) h"

text \<open>The kernel: the four broadcast loads of lines 180 to 195, then the loop.\<close>

definition dp_kernel :: "nat \<Rightarrow> heap \<Rightarrow> heap option" where
  "dp_kernel n h =
     do {
       x1 \<leftarrow> mm_load1_ps h (X, 0);
       y1 \<leftarrow> mm_load1_ps h (Y, 0);
       z1 \<leftarrow> mm_load1_ps h (Z, 0);
       w1 \<leftarrow> mm_load1_ps h (W, 0);
       dp_loop n x1 y1 z1 w1 h
     }"


section \<open>The program\<close>

text \<open>
  \<^verbatim>\<open>main\<close> runs three demonstrations in sequence on one heap. What it prints
  (\<^verbatim>\<open>printf\<close>, \<^verbatim>\<open>printFloats\<close>) and the final \<^verbatim>\<open>_getch\<close> touch no buffer and are
  left out.
\<close>

subsection \<open>The element-wise addition (lines 57 to 98)\<close>

definition warmup_fill :: "nat \<Rightarrow> heap \<Rightarrow> heap option" where
  "warmup_fill i h =
     do {
       h \<leftarrow> store_f32 h (Foo, i) (f32_of_int (int i));
       store_f32 h (Bar, i) (f32_mul (f32_of_int (int i)) (f32_lit 1 10))
     }"

definition warmup_add :: "nat \<Rightarrow> heap \<Rightarrow> heap option" where
  "warmup_add i h =
     do {
       a \<leftarrow> mm_load_ps h (Foo, i);
       b \<leftarrow> mm_load_ps h (Bar, i);
       let c = mm_add_ps a b;
       mm_store_ps h (Results, i) c
     }"

definition warmup :: "(buffer \<Rightarrow> nat \<Rightarrow> f32) \<Rightarrow> heap \<Rightarrow> heap option" where
  "warmup junk h =
     do {
       let h = aligned_malloc junk Foo 8 h;
       let h = aligned_malloc junk Bar 8 h;
       h \<leftarrow> for_loop 0 8 1 warmup_fill h;
       let h = aligned_malloc junk Results 8 h;
       for_loop 0 8 4 warmup_add h
     }"

subsection \<open>One dot product on an array of structures (lines 117 to 139)\<close>

definition aos_dot :: "(buffer \<Rightarrow> nat \<Rightarrow> f32) \<Rightarrow> heap \<Rightarrow> (heap \<times> f32) option" where
  "aos_dot junk h =
     do {
       let h = aligned_malloc junk Vectors 8 h;
       h \<leftarrow> store_f32 h (Vectors, 0) (f32_lit 1 1);
       h \<leftarrow> store_f32 h (Vectors, 1) (f32_lit 1 1);
       h \<leftarrow> store_f32 h (Vectors, 2) (f32_lit 1 1);
       h \<leftarrow> store_f32 h (Vectors, 3) (f32_lit 1 1);
       h \<leftarrow> store_f32 h (Vectors, 4) (f32_lit 2 1);
       h \<leftarrow> store_f32 h (Vectors, 5) (f32_lit 2 1);
       h \<leftarrow> store_f32 h (Vectors, 6) (f32_lit 2 1);
       h \<leftarrow> store_f32 h (Vectors, 7) (f32_lit 2 1);
       a \<leftarrow> mm_load_ps h (Vectors, 0);
       b \<leftarrow> mm_load_ps h (Vectors, 4);
       let c = mm_mul_ps a b;
       h \<leftarrow> mm_store_ps h (Results, 0) c;
       r0 \<leftarrow> load_f32 h (Results, 0);
       r1 \<leftarrow> load_f32 h (Results, 1);
       r2 \<leftarrow> load_f32 h (Results, 2);
       r3 \<leftarrow> load_f32 h (Results, 3);
       let product = f32_add (f32_add r0 r1) (f32_add r2 r3);
       Some (h, product)
     }"

subsection \<open>The batched dot product on a structure of arrays (lines 156 to 217)\<close>

definition soa_alloc :: "(buffer \<Rightarrow> nat \<Rightarrow> f32) \<Rightarrow> heap \<Rightarrow> heap" where
  "soa_alloc junk h =
     (let h = aligned_malloc junk X 64 h;
          h = aligned_malloc junk Y 64 h;
          h = aligned_malloc junk Z 64 h;
          h = aligned_malloc junk W 64 h
      in aligned_malloc junk Dp 64 h)"

definition soa_fill :: "nat \<Rightarrow> heap \<Rightarrow> heap option" where
  "soa_fill i h =
     do {
       h \<leftarrow> store_f32 h (X, i) (f32_lit 1 10);
       h \<leftarrow> store_f32 h (Y, i) (f32_lit 1 10);
       h \<leftarrow> store_f32 h (Z, i) (f32_lit 1 10);
       store_f32 h (W, i) (f32_lit 1 10)
     }"

definition soa_dot :: "(buffer \<Rightarrow> nat \<Rightarrow> f32) \<Rightarrow> heap \<Rightarrow> heap option" where
  "soa_dot junk h =
     do {
       let h = soa_alloc junk h;
       h \<leftarrow> for_loop 1 64 1 soa_fill h;
       h \<leftarrow> store_f32 h (X, 0) (f32_lit 1 1);
       h \<leftarrow> store_f32 h (Y, 0) (f32_lit 1 1);
       h \<leftarrow> store_f32 h (W, 0) (f32_lit 1 1);
       h \<leftarrow> store_f32 h (Z, 0) (f32_lit 1 1);
       dp_kernel 64 h
     }"

text \<open>
  The whole of \<^verbatim>\<open>main\<close>, from an empty heap: the final heap and the value of
  \<^verbatim>\<open>product\<close>.
\<close>

definition main :: "(buffer \<Rightarrow> nat \<Rightarrow> f32) \<Rightarrow> (heap \<times> f32) option" where
  "main junk =
     do {
       h \<leftarrow> warmup junk (\<lambda>b. []);
       (h, product) \<leftarrow> aos_dot junk h;
       h \<leftarrow> soa_dot junk h;
       Some (h, product)
     }"


section \<open>Notions used in the statements\<close>

text \<open>\<^verbatim>\<open>v.m128_f32[j]\<close>, for \<open>j\<close> from 0 to 3.\<close>

definition lane :: "m128 \<Rightarrow> nat \<Rightarrow> f32" where
  "lane v j = (if j = 0 then f0 v else if j = 1 then f1 v else if j = 2 then f2 v else f3 v)"

text \<open>
  The value one lane of the loop body computes from the lanes of the four broadcast
  registers and of the four loaded registers: the products \<open>dx\<close>, \<open>dy\<close>, \<open>dz\<close>,
  \<open>dw\<close>, then \<open>dx + dy\<close>, \<open>dz + dw\<close> and the sum of the two.
\<close>

definition dot4 :: "f32 \<Rightarrow> f32 \<Rightarrow> f32 \<Rightarrow> f32 \<Rightarrow> f32 \<Rightarrow> f32 \<Rightarrow> f32 \<Rightarrow> f32 \<Rightarrow> f32" where
  "dot4 x0 y0 z0 w0 xi yi zi wi =
     f32_add (f32_add (f32_mul x0 xi) (f32_mul y0 yi)) (f32_add (f32_mul z0 zi) (f32_mul w0 wi))"

text \<open>The five buffers of the kernel hold \<open>n\<close> floats each.\<close>

definition soa_lengths :: "nat \<Rightarrow> heap \<Rightarrow> bool" where
  "soa_lengths n h =
     (length (h X) = n \<and> length (h Y) = n \<and> length (h Z) = n \<and> length (h W) = n \<and>
      length (h Dp) = n)"

text \<open>What the loop leaves in \<^verbatim>\<open>dp[m]\<close>, in terms of the heap \<open>h\<close> it started on.\<close>

definition dp_at :: "m128 \<Rightarrow> m128 \<Rightarrow> m128 \<Rightarrow> m128 \<Rightarrow> heap \<Rightarrow> nat \<Rightarrow> f32" where
  "dp_at x1 y1 z1 w1 h m =
     dot4 (lane x1 (m mod 4)) (lane y1 (m mod 4)) (lane z1 (m mod 4)) (lane w1 (m mod 4))
       (h X ! m) (h Y ! m) (h Z ! m) (h W ! m)"

text \<open>
  The invariant of the loop at the head of the pass with counter \<open>j\<close>: only \<^verbatim>\<open>dp\<close>
  has changed, and exactly its first \<open>j\<close> floats.
\<close>

definition dp_inv :: "nat \<Rightarrow> m128 \<Rightarrow> m128 \<Rightarrow> m128 \<Rightarrow> m128 \<Rightarrow> heap \<Rightarrow> nat \<Rightarrow> heap \<Rightarrow> bool" where
  "dp_inv n x1 y1 z1 w1 h j t =
     ((\<forall>b. b \<noteq> Dp \<longrightarrow> t b = h b) \<and> length (t Dp) = n \<and>
      (\<forall>m<j. t Dp ! m = dp_at x1 y1 z1 w1 h m) \<and>
      (\<forall>m\<ge>j. t Dp ! m = h Dp ! m))"

text \<open>
  The state of the loop that fills the coordinate arrays (lines 166 to 171) at the
  head of the pass with counter \<open>j\<close>: elements 1 to \<open>j - 1\<close> of the four arrays
  hold \<^verbatim>\<open>0.1f\<close>, and no other buffer has changed.
\<close>

definition soa_filled :: "heap \<Rightarrow> nat \<Rightarrow> heap \<Rightarrow> bool" where
  "soa_filled h j t =
     (soa_lengths 64 t \<and>
      (\<forall>b. b \<noteq> X \<and> b \<noteq> Y \<and> b \<noteq> Z \<and> b \<noteq> W \<longrightarrow> t b = h b) \<and>
      (\<forall>m. 0 < m \<and> m < j \<longrightarrow>
         t X ! m = f32_lit 1 10 \<and> t Y ! m = f32_lit 1 10 \<and>
         t Z ! m = f32_lit 1 10 \<and> t W ! m = f32_lit 1 10))"

text \<open>
  The heap in which each of the five buffers of the kernel holds nothing but its
  \<open>k\<close>-th block of four floats.
\<close>

definition block_heap :: "heap \<Rightarrow> nat \<Rightarrow> heap" where
  "block_heap h k =
     h(X := take 4 (drop (4 * k) (h X)), Y := take 4 (drop (4 * k) (h Y)),
       Z := take 4 (drop (4 * k) (h Z)), W := take 4 (drop (4 * k) (h W)),
       Dp := take 4 (drop (4 * k) (h Dp)))"

text \<open>
  Two heaps to run the kernel on. In \<open>unit_heap n\<close> every buffer holds \<open>n\<close> floats
  \<^verbatim>\<open>1.0f\<close>. In \<open>tie_heap\<close> the buffers hold four floats \<^verbatim>\<open>1.0f\<close>, but for
  \<^verbatim>\<open>x[1]\<close>, which is \<open>2 ^ 24\<close>: there the order of the additions shows in the
  result.
\<close>

definition unit_heap :: "nat \<Rightarrow> heap" where
  "unit_heap n = (\<lambda>b. replicate n 0x3F800000)"

definition tie_heap :: heap where
  "tie_heap = (\<lambda>b. replicate 4 0x3F800000)
     (X := [0x3F800000, 0x4B800000, 0x3F800000, 0x3F800000])"

text \<open>
  A heap of two blocks that differ: every buffer holds four floats \<^verbatim>\<open>1.0f\<close>, then
  four floats \<^verbatim>\<open>2.0f\<close>.
\<close>

definition step_heap :: heap where
  "step_heap b =
     [0x3F800000, 0x3F800000, 0x3F800000, 0x3F800000,
      0x40000000, 0x40000000, 0x40000000, 0x40000000]"

text \<open>
  A run of the program from nothing: no buffer allocated, and fresh memory that holds
  zeros. \<open>read_after r p\<close> is the float at \<open>p\<close> in the heap that the run \<open>r\<close> has
  returned, if it has returned one and \<open>p\<close> lies within its buffer.
\<close>

definition zero_junk :: "buffer \<Rightarrow> nat \<Rightarrow> f32" where
  "zero_junk b i = 0"

definition empty_heap :: heap where
  "empty_heap b = []"

definition read_after :: "heap option \<Rightarrow> ptr \<Rightarrow> f32 option" where
  "read_after r p = (case r of None \<Rightarrow> None | Some h \<Rightarrow> load_f32 h p)"


section \<open>Evaluating float arithmetic\<close>

lemmas f32_eval =
  f32_lit_def f32_of_int_def f32_round_def round_even_def bit_length.simps f32_sign_bit_def
  Let_def f32_add_def f32_mul_def f32_is_nan_def f32_is_inf_def f32_exp_def f32_frac_def
  f32_smag_def f32_mag_def f32_sign_def f32_quiet_def f32_default_nan_def

subsection \<open>The values of the two dot-product demonstrations\<close>

lemma lit_one: "f32_lit 1 1 = 0x3F800000"
  by (simp add: f32_eval)

lemma lit_two: "f32_lit 2 1 = 0x40000000"
  by (simp add: f32_eval)

lemma lit_tenth: "f32_lit 1 10 = 0x3DCCCCCD"
  by (simp add: f32_eval)

lemma one_times_one: "f32_mul 0x3F800000 0x3F800000 = 0x3F800000"
  by (simp add: f32_eval)

lemma one_plus_one: "f32_add 0x3F800000 0x3F800000 = 0x40000000"
  by (simp add: f32_eval)

lemma two_plus_two: "f32_add 0x40000000 0x40000000 = 0x40800000"
  by (simp add: f32_eval)

lemma four_plus_four: "f32_add 0x40800000 0x40800000 = 0x41000000"
  by (simp add: f32_eval)

lemma one_times_two: "f32_mul 0x3F800000 0x40000000 = 0x40000000"
  by (simp add: f32_eval)

lemma one_times_tenth: "f32_mul 0x3F800000 0x3DCCCCCD = 0x3DCCCCCD"
  by (simp add: f32_eval)

lemma tenth_plus_tenth: "f32_add 0x3DCCCCCD 0x3DCCCCCD = 0x3E4CCCCD"
  by (simp add: f32_eval)

lemma fifth_plus_fifth: "f32_add 0x3E4CCCCD 0x3E4CCCCD = 0x3ECCCCCD"
  by (simp add: f32_eval)

lemma val_four: "f32_val 0x40800000 = 4"
  by (simp add: f32_val_def f32_eval)

lemma val_eight: "f32_val 0x41000000 = 8"
  by (simp add: f32_val_def f32_eval)

lemma val_unit: "f32_val 0x3F800000 = 1"
  by (simp add: f32_val_def f32_eval)

lemma val_two: "f32_val 0x40000000 = 2"
  by (simp add: f32_val_def f32_eval)

lemma val_four_tenths: "f32_val 0x3ECCCCCD = 13421773 / 33554432"
  by (simp add: f32_val_def f32_eval)

lemma val_four_tenths_err: "\<bar>f32_val 0x3ECCCCCD - 4 / 10\<bar> < 1 / 10 ^ 6"
  by (simp add: val_four_tenths)

lemma lit_Suc:
  "f32_lit (Suc 0) (Suc 0) = 0x3F800000" "f32_lit 2 (Suc 0) = 0x40000000"
  "f32_lit (Suc 0) 10 = 0x3DCCCCCD"
  using lit_one lit_two lit_tenth by simp_all

subsection \<open>The values of the element-wise addition\<close>

lemma foo_zero: "f32_of_int 0 = 0x00000000"
  by (simp add: f32_eval)

lemma bar_zero: "f32_mul 0x00000000 0x3DCCCCCD = 0x00000000"
  by (simp add: f32_eval)

lemma results_zero: "f32_add 0x00000000 0x00000000 = 0x00000000"
  by (simp add: f32_eval)

lemma eleven_tenths_zero: "f32_lit 0 10 = 0x00000000"
  by (simp add: f32_eval)

lemma results_val_zero: "f32_val 0x00000000 = 0 / 1"
  by (simp add: f32_val_def f32_eval)

lemma foo_one: "f32_of_int 1 = 0x3F800000"
  by (simp add: f32_eval)

lemma bar_one: "f32_mul 0x3F800000 0x3DCCCCCD = 0x3DCCCCCD"
  by (simp add: f32_eval)

lemma results_one: "f32_add 0x3F800000 0x3DCCCCCD = 0x3F8CCCCD"
  by (simp add: f32_eval)

lemma eleven_tenths_one: "f32_lit 11 10 = 0x3F8CCCCD"
  by (simp add: f32_eval)

lemma results_val_one: "f32_val 0x3F8CCCCD = 9227469 / 8388608"
  by (simp add: f32_val_def f32_eval)

lemma foo_two: "f32_of_int 2 = 0x40000000"
  by (simp add: f32_eval)

lemma bar_two: "f32_mul 0x40000000 0x3DCCCCCD = 0x3E4CCCCD"
  by (simp add: f32_eval)

lemma results_two: "f32_add 0x40000000 0x3E4CCCCD = 0x400CCCCD"
  by (simp add: f32_eval)

lemma eleven_tenths_two: "f32_lit 22 10 = 0x400CCCCD"
  by (simp add: f32_eval)

lemma results_val_two: "f32_val 0x400CCCCD = 9227469 / 4194304"
  by (simp add: f32_val_def f32_eval)

lemma foo_three: "f32_of_int 3 = 0x40400000"
  by (simp add: f32_eval)

lemma bar_three: "f32_mul 0x40400000 0x3DCCCCCD = 0x3E99999A"
  by (simp add: f32_eval)

lemma results_three: "f32_add 0x40400000 0x3E99999A = 0x40533333"
  by (simp add: f32_eval)

lemma eleven_tenths_three: "f32_lit 33 10 = 0x40533333"
  by (simp add: f32_eval)

lemma results_val_three: "f32_val 0x40533333 = 13841203 / 4194304"
  by (simp add: f32_val_def f32_eval)

lemma foo_four: "f32_of_int 4 = 0x40800000"
  by (simp add: f32_eval)

lemma bar_four: "f32_mul 0x40800000 0x3DCCCCCD = 0x3ECCCCCD"
  by (simp add: f32_eval)

lemma results_four: "f32_add 0x40800000 0x3ECCCCCD = 0x408CCCCD"
  by (simp add: f32_eval)

lemma eleven_tenths_four: "f32_lit 44 10 = 0x408CCCCD"
  by (simp add: f32_eval)

lemma results_val_four: "f32_val 0x408CCCCD = 9227469 / 2097152"
  by (simp add: f32_val_def f32_eval)

lemma foo_five: "f32_of_int 5 = 0x40A00000"
  by (simp add: f32_eval)

lemma bar_five: "f32_mul 0x40A00000 0x3DCCCCCD = 0x3F000000"
  by (simp add: f32_eval)

lemma results_five: "f32_add 0x40A00000 0x3F000000 = 0x40B00000"
  by (simp add: f32_eval)

lemma eleven_tenths_five: "f32_lit 55 10 = 0x40B00000"
  by (simp add: f32_eval)

lemma results_val_five: "f32_val 0x40B00000 = 11 / 2"
  by (simp add: f32_val_def f32_eval)

lemma foo_six: "f32_of_int 6 = 0x40C00000"
  by (simp add: f32_eval)

lemma bar_six: "f32_mul 0x40C00000 0x3DCCCCCD = 0x3F19999A"
  by (simp add: f32_eval)

lemma results_six: "f32_add 0x40C00000 0x3F19999A = 0x40D33333"
  by (simp add: f32_eval)

lemma eleven_tenths_six: "f32_lit 66 10 = 0x40D33333"
  by (simp add: f32_eval)

lemma results_val_six: "f32_val 0x40D33333 = 13841203 / 2097152"
  by (simp add: f32_val_def f32_eval)

lemma foo_seven: "f32_of_int 7 = 0x40E00000"
  by (simp add: f32_eval)

lemma bar_seven: "f32_mul 0x40E00000 0x3DCCCCCD = 0x3F333333"
  by (simp add: f32_eval)

lemma results_seven: "f32_add 0x40E00000 0x3F333333 = 0x40F66666"
  by (simp add: f32_eval)

lemma eleven_tenths_seven: "f32_lit 77 10 = 0x40F66666"
  by (simp add: f32_eval)

lemma results_val_seven: "f32_val 0x40F66666 = 8074035 / 1048576"
  by (simp add: f32_val_def f32_eval)

subsection \<open>Where the order of the additions shows\<close>

lemma big_times_one: "f32_mul 0x3F800000 0x4B800000 = 0x4B800000"
  by (simp add: f32_eval)

lemma big_plus_one: "f32_add 0x4B800000 0x3F800000 = 0x4B800000"
  by (simp add: f32_eval)

lemma big_plus_two: "f32_add 0x4B800000 0x40000000 = 0x4B800001"
  by (simp add: f32_eval)

lemma two_times_two: "f32_mul 0x40000000 0x40000000 = 0x40800000"
  by (simp add: f32_eval)

lemma eight_plus_eight: "f32_add 0x41000000 0x41000000 = 0x41800000"
  by (simp add: f32_eval)

subsection \<open>The arithmetic at the corners of the format\<close>

lemma tie_to_even_up: "f32_add 0x4B800001 0x3F800000 = 0x4B800002"
  by (simp add: f32_eval)

lemma overflow_to_infinity: "f32_add 0x7F7FFFFF 0x7F7FFFFF = 0x7F800000"
  by (simp add: f32_eval)

lemma below_overflow: "f32_add 0x7F7FFFFF 0x72FFFFFF = 0x7F7FFFFF"
  by (simp add: f32_eval)

lemma halfway_to_overflow: "f32_add 0x7F7FFFFF 0x73000000 = 0x7F800000"
  by (simp add: f32_eval)

lemma product_overflow: "f32_mul 0x7F000000 0x40800000 = 0x7F800000"
  by (simp add: f32_eval)

lemma gradual_underflow: "f32_mul 0x00800000 0x3F000000 = 0x00400000"
  by (simp add: f32_eval)

lemma underflow_to_zero: "f32_mul 0x00000001 0x3F000000 = 0x00000000"
  by (simp add: f32_eval)

lemma underflow_to_least: "f32_mul 0x00000003 0x3F000000 = 0x00000002"
  by (simp add: f32_eval)

lemma subnormal_sum: "f32_add 0x007FFFFF 0x00000001 = 0x00800000"
  by (simp add: f32_eval)

lemma cancellation: "f32_add 0x3F800000 0xBF800000 = 0x00000000"
  by (simp add: f32_eval)

lemma negative_zero_sum: "f32_add 0x80000000 0x80000000 = 0x80000000"
  by (simp add: f32_eval)

lemma mixed_zero_sum: "f32_add 0x80000000 0x00000000 = 0x00000000"
  by (simp add: f32_eval)

lemma negative_product: "f32_mul 0xBF800000 0x3DCCCCCD = 0xBDCCCCCD"
  by (simp add: f32_eval)

lemma infinity_plus_finite: "f32_add 0x7F800000 0xFF7FFFFF = 0x7F800000"
  by (simp add: f32_eval)

lemma infinity_minus_infinity: "f32_add 0x7F800000 0xFF800000 = 0xFFC00000"
  by (simp add: f32_eval)

lemma zero_times_infinity: "f32_mul 0x00000000 0x7F800000 = 0xFFC00000"
  by (simp add: f32_eval)

lemma nan_operand: "f32_add 0x3F800000 0x7FA00000 = 0x7FE00000"
  by (simp add: f32_eval)

lemma int_beyond_24_bits: "f32_of_int 16777217 = 0x4B800000"
  by (simp add: f32_eval)

lemma negative_int: "f32_of_int (- 3) = 0xC0400000"
  by (simp add: f32_eval)


section \<open>Loops and the kernel\<close>

lemma for_iter_add:
  "for_iter step body (k + l) i s =
     (case for_iter step body k i s of None \<Rightarrow> None
      | Some t \<Rightarrow> for_iter step body l (i + k * step) t)"
  by (induction k arbitrary: i s) (auto split: option.splits simp: algebra_simps)

lemma for_loop_iter:
  assumes "0 < step"
  shows "for_loop i (i + k * step) step body s = for_iter step body k i s"
proof (induction k arbitrary: i s)
  case 0
  show ?case by (subst for_loop.simps) simp
next
  case (Suc k)
  have eq: "i + Suc k * step = (i + step) + k * step" by simp
  show ?case
    using assms Suc [of "i + step"]
    by (subst for_loop.simps) (auto simp: eq simp del: mult_Suc split: option.splits)
qed

lemma dp_block_Some:
  assumes "i mod 4 = 0" and "i + 4 \<le> n" and "soa_lengths n h"
  shows "dp_block x1 y1 z1 w1 i h =
     Some (h(Dp := (h Dp)
       [i := dot4 (f0 x1) (f0 y1) (f0 z1) (f0 w1) (h X ! i) (h Y ! i) (h Z ! i) (h W ! i),
        i + 1 := dot4 (f1 x1) (f1 y1) (f1 z1) (f1 w1)
                   (h X ! (i + 1)) (h Y ! (i + 1)) (h Z ! (i + 1)) (h W ! (i + 1)),
        i + 2 := dot4 (f2 x1) (f2 y1) (f2 z1) (f2 w1)
                   (h X ! (i + 2)) (h Y ! (i + 2)) (h Z ! (i + 2)) (h W ! (i + 2)),
        i + 3 := dot4 (f3 x1) (f3 y1) (f3 z1) (f3 w1)
                   (h X ! (i + 3)) (h Y ! (i + 3)) (h Z ! (i + 3)) (h W ! (i + 3))]))"
  using assms
  by (simp add: dp_block_def mm_load_ps_def mm_store_ps_def mm_mul_ps_def mm_add_ps_def
      dot4_def soa_lengths_def Let_def)

lemma mod4_block:
  "(4 * k) mod 4 = (0::nat)" "(4 * k + 1) mod 4 = (1::nat)"
  "(4 * k + 2) mod 4 = (2::nat)" "(4 * k + 3) mod 4 = (3::nat)"
  by presburger+

lemma lane_simps:
  "lane v 0 = f0 v" "lane v 1 = f1 v" "lane v 2 = f2 v" "lane v 3 = f3 v"
  by (simp_all add: lane_def)

lemma dp_at_block:
  "dp_at x1 y1 z1 w1 h (4 * k) =
     dot4 (f0 x1) (f0 y1) (f0 z1) (f0 w1)
       (h X ! (4 * k)) (h Y ! (4 * k)) (h Z ! (4 * k)) (h W ! (4 * k))"
  "dp_at x1 y1 z1 w1 h (4 * k + 1) =
     dot4 (f1 x1) (f1 y1) (f1 z1) (f1 w1)
       (h X ! (4 * k + 1)) (h Y ! (4 * k + 1)) (h Z ! (4 * k + 1)) (h W ! (4 * k + 1))"
  "dp_at x1 y1 z1 w1 h (4 * k + 2) =
     dot4 (f2 x1) (f2 y1) (f2 z1) (f2 w1)
       (h X ! (4 * k + 2)) (h Y ! (4 * k + 2)) (h Z ! (4 * k + 2)) (h W ! (4 * k + 2))"
  "dp_at x1 y1 z1 w1 h (4 * k + 3) =
     dot4 (f3 x1) (f3 y1) (f3 z1) (f3 w1)
       (h X ! (4 * k + 3)) (h Y ! (4 * k + 3)) (h Z ! (4 * k + 3)) (h W ! (4 * k + 3))"
  unfolding dp_at_def mod4_block lane_simps by (rule refl)+

lemma below_block:
  "m < 4 * k + 4 \<Longrightarrow> m < 4 * k \<or> m = 4 * k \<or> m = 4 * k + 1 \<or> m = 4 * k + 2 \<or> m = 4 * k + 3"
  for m k :: nat
  by arith

lemma dp_block_inv:
  assumes len: "soa_lengths n h" and k: "4 * k + 4 \<le> n"
    and inv: "dp_inv n x1 y1 z1 w1 h (4 * k) t"
  shows "\<exists>t'. dp_block x1 y1 z1 w1 (4 * k) t = Some t' \<and> dp_inv n x1 y1 z1 w1 h (4 * k + 4) t'"
proof -
  from inv have same: "t X = h X" "t Y = h Y" "t Z = h Z" "t W = h W"
    and lenD: "length (t Dp) = n"
    and filled: "\<forall>m<4 * k. t Dp ! m = dp_at x1 y1 z1 w1 h m"
    and rest: "\<forall>m\<ge>4 * k. t Dp ! m = h Dp ! m"
    by (simp_all add: dp_inv_def)
  from len same lenD have lent: "soa_lengths n t"
    by (simp add: soa_lengths_def)
  define t' where "t' = t(Dp := (t Dp)
       [4 * k := dp_at x1 y1 z1 w1 h (4 * k),
        4 * k + 1 := dp_at x1 y1 z1 w1 h (4 * k + 1),
        4 * k + 2 := dp_at x1 y1 z1 w1 h (4 * k + 2),
        4 * k + 3 := dp_at x1 y1 z1 w1 h (4 * k + 3)])"
  have run: "dp_block x1 y1 z1 w1 (4 * k) t = Some t'"
    unfolding t'_def dp_at_block
    using dp_block_Some [OF _ k lent, of x1 y1 z1 w1]
    by (simp add: same)
  have "dp_inv n x1 y1 z1 w1 h (4 * k + 4) t'"
    unfolding dp_inv_def
  proof (intro conjI allI impI)
    fix b :: buffer
    assume "b \<noteq> Dp"
    with inv show "t' b = h b"
      by (simp add: t'_def dp_inv_def)
  next
    show "length (t' Dp) = n"
      by (simp add: t'_def lenD)
  next
    fix m
    assume "m < 4 * k + 4"
    then consider "m < 4 * k" | "m = 4 * k" | "m = 4 * k + 1" | "m = 4 * k + 2" | "m = 4 * k + 3"
      using below_block by blast
    then show "t' Dp ! m = dp_at x1 y1 z1 w1 h m"
      using filled k lenD by cases (simp_all add: t'_def)
  next
    fix m
    assume "4 * k + 4 \<le> m"
    with rest show "t' Dp ! m = h Dp ! m"
      by (simp add: t'_def)
  qed
  with run show ?thesis
    by blast
qed

lemma dp_iter_inv:
  assumes len: "soa_lengths n h" and k: "4 * k \<le> n"
  shows "\<exists>t. for_iter 4 (dp_block x1 y1 z1 w1) k 0 h = Some t \<and>
             dp_inv n x1 y1 z1 w1 h (4 * k) t"
  using k
proof (induction k)
  case 0
  from len show ?case
    by (simp add: dp_inv_def soa_lengths_def)
next
  case (Suc k)
  then obtain t where t: "for_iter 4 (dp_block x1 y1 z1 w1) k 0 h = Some t"
      "dp_inv n x1 y1 z1 w1 h (4 * k) t"
    by auto
  from Suc.prems have "4 * k + 4 \<le> n"
    by simp
  from dp_block_inv [OF len this t(2)] obtain t'
    where t': "dp_block x1 y1 z1 w1 (4 * k) t = Some t'" "dp_inv n x1 y1 z1 w1 h (4 * k + 4) t'"
    by blast
  have "for_iter 4 (dp_block x1 y1 z1 w1) (Suc k) 0 h = Some t'"
    using for_iter_add [of 4 "dp_block x1 y1 z1 w1" k 1 0 h] t(1) t'(1)
    by (simp add: mult.commute)
  with t'(2) show ?case
    by (simp add: algebra_simps)
qed

lemma dp_loop_iter:
  "dp_loop (4 * k) x1 y1 z1 w1 h = for_iter 4 (dp_block x1 y1 z1 w1) k 0 h"
  using for_loop_iter [of 4 0 k "dp_block x1 y1 z1 w1" h]
  by (simp add: dp_loop_def mult.commute)

lemma dp_kernel_loop:
  assumes "soa_lengths n h" and "0 < n"
  shows "dp_kernel n h =
     dp_loop n (broadcast (h X ! 0)) (broadcast (h Y ! 0)) (broadcast (h Z ! 0))
       (broadcast (h W ! 0)) h"
  using assms by (simp add: dp_kernel_def mm_load1_ps_def soa_lengths_def)

lemma lane_broadcast: "lane (broadcast v) j = v"
  by (simp add: lane_def broadcast_def)

lemma dp_at_broadcast:
  "dp_at (broadcast x0) (broadcast y0) (broadcast z0) (broadcast w0) h m =
     dot4 x0 y0 z0 w0 (h X ! m) (h Y ! m) (h Z ! m) (h W ! m)"
  by (simp add: dp_at_def lane_broadcast)

text \<open>The kernel on well-formed buffers: the master statement.\<close>

lemma dp_kernel_inv:
  assumes len: "soa_lengths (4 * k) h" and k: "0 < k"
  shows "\<exists>t. dp_kernel (4 * k) h = Some t \<and>
     dp_inv (4 * k) (broadcast (h X ! 0)) (broadcast (h Y ! 0)) (broadcast (h Z ! 0))
       (broadcast (h W ! 0)) h (4 * k) t"
  using dp_iter_inv [OF len order_refl] k
  by (simp add: dp_kernel_loop [OF len] dp_loop_iter)

lemma dp_kernel_result:
  assumes len: "soa_lengths (4 * k) h" and k: "0 < k"
  shows "\<exists>t. dp_kernel (4 * k) h = Some t \<and> (\<forall>b. b \<noteq> Dp \<longrightarrow> t b = h b) \<and>
     length (t Dp) = 4 * k \<and>
     (\<forall>m<4 * k. t Dp ! m =
        dot4 (h X ! 0) (h Y ! 0) (h Z ! 0) (h W ! 0) (h X ! m) (h Y ! m) (h Z ! m) (h W ! m))"
  using dp_kernel_inv [OF assms] by (auto simp: dp_inv_def dp_at_broadcast)


section \<open>The stages of the program\<close>

lemma store_f32_Some:
  "i < length (h b) \<Longrightarrow> store_f32 h (b, i) v = Some (h(b := (h b)[i := v]))"
  by (simp add: store_f32_def)

lemma below_eight:
  "m < 8 \<Longrightarrow> m = 0 \<or> m = 1 \<or> m = 2 \<or> m = 3 \<or> m = 4 \<or> m = 5 \<or> m = 6 \<or> m = (7::nat)"
  by arith

subsection \<open>The element-wise addition\<close>

lemma warmup_fill_iter:
  assumes "length (h Foo) = 8" and "length (h Bar) = 8" and "k \<le> 8"
  shows "\<exists>t. for_iter 1 warmup_fill k 0 h = Some t \<and>
     length (t Foo) = 8 \<and> length (t Bar) = 8 \<and>
     (\<forall>b. b \<noteq> Foo \<and> b \<noteq> Bar \<longrightarrow> t b = h b) \<and>
     (\<forall>m<k. t Foo ! m = f32_of_int (int m) \<and>
             t Bar ! m = f32_mul (f32_of_int (int m)) (f32_lit 1 10))"
  using \<open>k \<le> 8\<close>
proof (induction k)
  case 0
  with assms show ?case by simp
next
  case (Suc k)
  then obtain t where t: "for_iter 1 warmup_fill k 0 h = Some t"
      "length (t Foo) = 8" "length (t Bar) = 8"
      "\<forall>b. b \<noteq> Foo \<and> b \<noteq> Bar \<longrightarrow> t b = h b"
      "\<forall>m<k. t Foo ! m = f32_of_int (int m) \<and>
              t Bar ! m = f32_mul (f32_of_int (int m)) (f32_lit 1 10)"
    by auto
  define t' where "t' = t(Foo := (t Foo)[k := f32_of_int (int k)],
      Bar := (t Bar)[k := f32_mul (f32_of_int (int k)) (f32_lit 1 10)])"
  from Suc.prems t(2,3) have step: "warmup_fill k t = Some t'"
    by (simp add: warmup_fill_def store_f32_Some t'_def)
  have run: "for_iter 1 warmup_fill (Suc k) 0 h = Some t'"
    using for_iter_add [of 1 warmup_fill k 1 0 h] t(1) step by simp
  have "\<forall>m<Suc k. t' Foo ! m = f32_of_int (int m) \<and>
           t' Bar ! m = f32_mul (f32_of_int (int m)) (f32_lit 1 10)"
    using t(2,3,5) Suc.prems by (auto simp: t'_def less_Suc_eq nth_list_update)
  with run t(2,3,4) show ?case
    by (simp add: t'_def)
qed

lemma warmup_add_loop:
  assumes "length (h Foo) = 8" and "length (h Bar) = 8" and "length (h Results) = 8"
  shows "\<exists>t. for_loop 0 8 4 warmup_add h = Some t \<and>
     (\<forall>b. b \<noteq> Results \<longrightarrow> t b = h b) \<and> length (t Results) = 8 \<and>
     (\<forall>m<8. t Results ! m = f32_add (h Foo ! m) (h Bar ! m))"
proof -
  define t1 where "t1 = h(Results := (h Results)
       [0 := f32_add (h Foo ! 0) (h Bar ! 0), 1 := f32_add (h Foo ! 1) (h Bar ! 1),
        2 := f32_add (h Foo ! 2) (h Bar ! 2), 3 := f32_add (h Foo ! 3) (h Bar ! 3)])"
  define t2 where "t2 = t1(Results := (t1 Results)
       [4 := f32_add (h Foo ! 4) (h Bar ! 4), 5 := f32_add (h Foo ! 5) (h Bar ! 5),
        6 := f32_add (h Foo ! 6) (h Bar ! 6), 7 := f32_add (h Foo ! 7) (h Bar ! 7)])"
  have s1: "warmup_add 0 h = Some t1"
    using assms
    by (simp add: t1_def warmup_add_def mm_load_ps_def mm_store_ps_def mm_add_ps_def Let_def
        numeral_2_eq_2)
  have s2: "warmup_add 4 t1 = Some t2"
    using assms
    by (simp add: t1_def t2_def warmup_add_def mm_load_ps_def mm_store_ps_def mm_add_ps_def
        Let_def)
  have "for_loop 0 8 4 warmup_add h = for_iter 4 warmup_add 2 0 h"
    using for_loop_iter [of 4 0 2 warmup_add h] by simp
  also have "\<dots> = Some t2"
    using s1 s2 by (simp add: numeral_2_eq_2)
  finally have run: "for_loop 0 8 4 warmup_add h = Some t2" .
  have "t2 Results ! m = f32_add (h Foo ! m) (h Bar ! m)" if "m < 8" for m
    using below_eight [OF that] assms by (auto simp: t1_def t2_def)
  with run assms show ?thesis
    by (simp add: t1_def t2_def)
qed

lemma warmup_result:
  "\<exists>t. warmup junk h = Some t \<and> length (t Foo) = 8 \<and> length (t Bar) = 8 \<and>
     length (t Results) = 8 \<and>
     (\<forall>b. b \<noteq> Foo \<and> b \<noteq> Bar \<and> b \<noteq> Results \<longrightarrow> t b = h b) \<and>
     (\<forall>m<8. t Foo ! m = f32_of_int (int m) \<and>
             t Bar ! m = f32_mul (f32_of_int (int m)) (f32_lit 1 10) \<and>
             t Results ! m =
               f32_add (f32_of_int (int m)) (f32_mul (f32_of_int (int m)) (f32_lit 1 10)))"
proof -
  define h1 where "h1 = aligned_malloc junk Bar 8 (aligned_malloc junk Foo 8 h)"
  have len1: "length (h1 Foo) = 8" "length (h1 Bar) = 8"
    by (simp_all add: h1_def aligned_malloc_def)
  from warmup_fill_iter [OF len1 order_refl] obtain t1
    where t1: "for_iter 1 warmup_fill 8 0 h1 = Some t1" "length (t1 Foo) = 8"
      "length (t1 Bar) = 8" "\<forall>b. b \<noteq> Foo \<and> b \<noteq> Bar \<longrightarrow> t1 b = h1 b"
      "\<forall>m<8. t1 Foo ! m = f32_of_int (int m) \<and>
              t1 Bar ! m = f32_mul (f32_of_int (int m)) (f32_lit 1 10)"
    by blast
  have fill: "for_loop 0 8 1 warmup_fill h1 = Some t1"
    using for_loop_iter [of 1 0 8 warmup_fill h1] t1(1) by simp
  define h2 where "h2 = aligned_malloc junk Results 8 t1"
  have len2: "length (h2 Foo) = 8" "length (h2 Bar) = 8" "length (h2 Results) = 8"
    using t1(2,3) by (simp_all add: h2_def aligned_malloc_def)
  from warmup_add_loop [OF len2] obtain t2
    where t2: "for_loop 0 8 4 warmup_add h2 = Some t2" "\<forall>b. b \<noteq> Results \<longrightarrow> t2 b = h2 b"
      "length (t2 Results) = 8" "\<forall>m<8. t2 Results ! m = f32_add (h2 Foo ! m) (h2 Bar ! m)"
    by blast
  have run: "warmup junk h = Some t2"
    using fill t2(1) by (simp add: warmup_def h1_def h2_def)
  have same: "h2 Foo = t1 Foo" "h2 Bar = t1 Bar"
    by (simp_all add: h2_def aligned_malloc_def)
  have other: "t2 b = h b" if "b \<noteq> Foo \<and> b \<noteq> Bar \<and> b \<noteq> Results" for b
    using that t2(2) t1(4) by (simp add: h2_def h1_def aligned_malloc_def)
  from run t2 t1 len2 same other show ?thesis
    by auto
qed

lemma warmup_value:
  assumes "i < 8"
  shows "f32_add (f32_of_int (int i)) (f32_mul (f32_of_int (int i)) (f32_lit 1 10)) =
      f32_lit (11 * i) 10 \<and>
    \<bar>f32_val (f32_lit (11 * i) 10) - 11 * real i / 10\<bar> < 1 / 10 ^ 6"
  using below_eight [OF assms]
proof (elim disjE)
  assume "i = 0"
  then show ?thesis
    by (simp add: lit_Suc foo_zero bar_zero results_zero eleven_tenths_zero results_val_zero)
next
  assume "i = 1"
  then show ?thesis
    by (simp add: lit_Suc foo_one bar_one results_one eleven_tenths_one results_val_one)
next
  assume "i = 2"
  then show ?thesis
    by (simp add: lit_Suc foo_two bar_two results_two eleven_tenths_two results_val_two)
next
  assume "i = 3"
  then show ?thesis
    by (simp add: lit_Suc foo_three bar_three results_three eleven_tenths_three results_val_three)
next
  assume "i = 4"
  then show ?thesis
    by (simp add: lit_Suc foo_four bar_four results_four eleven_tenths_four results_val_four)
next
  assume "i = 5"
  then show ?thesis
    by (simp add: lit_Suc foo_five bar_five results_five eleven_tenths_five results_val_five)
next
  assume "i = 6"
  then show ?thesis
    by (simp add: lit_Suc foo_six bar_six results_six eleven_tenths_six results_val_six)
next
  assume "i = 7"
  then show ?thesis
    by (simp add: lit_Suc foo_seven bar_seven results_seven eleven_tenths_seven results_val_seven)
qed

subsection \<open>The dot product on the array of structures\<close>

lemma aos_dot_result:
  assumes "length (h Results) = 8"
  shows "\<exists>t. aos_dot junk h = Some (t, 0x41000000) \<and>
     (\<forall>b. b \<noteq> Vectors \<and> b \<noteq> Results \<longrightarrow> t b = h b) \<and>
     t Results ! 0 = 0x40000000 \<and> t Results ! 1 = 0x40000000 \<and>
     t Results ! 2 = 0x40000000 \<and> t Results ! 3 = 0x40000000"
proof -
  from assms have "h Results \<noteq> []"
    by auto
  with assms show ?thesis
    by (simp add: aos_dot_def aligned_malloc_def store_f32_def mm_load_ps_def mm_store_ps_def
      mm_mul_ps_def load_f32_def Let_def lit_Suc one_times_two two_plus_two
        four_plus_four nth_list_update)
qed

subsection \<open>The dot products on the structure of arrays\<close>

lemma soa_alloc_lengths: "soa_lengths 64 (soa_alloc junk h)"
  by (simp add: soa_alloc_def soa_lengths_def aligned_malloc_def Let_def)

lemma soa_alloc_other:
  "b \<noteq> X \<Longrightarrow> b \<noteq> Y \<Longrightarrow> b \<noteq> Z \<Longrightarrow> b \<noteq> W \<Longrightarrow> b \<noteq> Dp \<Longrightarrow> soa_alloc junk h b = h b"
  by (simp add: soa_alloc_def aligned_malloc_def Let_def)

lemma soa_fill_step:
  assumes "soa_filled h j t" and "j < 64"
  shows "\<exists>t'. soa_fill j t = Some t' \<and> soa_filled h (Suc j) t'"
proof -
  define t' where "t' = t(X := (t X)[j := f32_lit 1 10], Y := (t Y)[j := f32_lit 1 10],
      Z := (t Z)[j := f32_lit 1 10], W := (t W)[j := f32_lit 1 10])"
  from assms have "soa_fill j t = Some t'"
    by (simp add: soa_fill_def store_f32_Some t'_def soa_filled_def soa_lengths_def)
  moreover from assms have "soa_filled h (Suc j) t'"
    by (auto simp: soa_filled_def soa_lengths_def t'_def less_Suc_eq nth_list_update)
  ultimately show ?thesis
    by blast
qed

lemma soa_fill_iter:
  assumes "soa_lengths 64 h" and "k \<le> 63"
  shows "\<exists>t. for_iter 1 soa_fill k 1 h = Some t \<and> soa_filled h (Suc k) t"
  using \<open>k \<le> 63\<close>
proof (induction k)
  case 0
  from assms(1) show ?case
    by (simp add: soa_filled_def)
next
  case (Suc k)
  then obtain t where t: "for_iter 1 soa_fill k 1 h = Some t" "soa_filled h (Suc k) t"
    by auto
  from Suc.prems have "Suc k < 64"
    by simp
  from soa_fill_step [OF t(2) this] obtain t'
    where t': "soa_fill (Suc k) t = Some t'" "soa_filled h (Suc (Suc k)) t'"
    by blast
  have "for_iter 1 soa_fill (Suc k) 1 h = Some t'"
    using for_iter_add [of 1 soa_fill k 1 1 h] t(1) t'(1) by simp
  with t'(2) show ?case
    by blast
qed

lemma soa_dot_result:
  "\<exists>t. soa_dot junk h = Some t \<and>
     (\<forall>b. b \<noteq> X \<and> b \<noteq> Y \<and> b \<noteq> Z \<and> b \<noteq> W \<and> b \<noteq> Dp \<longrightarrow> t b = h b) \<and>
     t X ! 0 = 0x3F800000 \<and> t Y ! 0 = 0x3F800000 \<and>
     t Z ! 0 = 0x3F800000 \<and> t W ! 0 = 0x3F800000 \<and>
     (\<forall>m. 0 < m \<and> m < 64 \<longrightarrow>
        t X ! m = 0x3DCCCCCD \<and> t Y ! m = 0x3DCCCCCD \<and>
        t Z ! m = 0x3DCCCCCD \<and> t W ! m = 0x3DCCCCCD) \<and>
     length (t Dp) = 64 \<and> t Dp ! 0 = 0x40800000 \<and>
     (\<forall>m. 0 < m \<and> m < 64 \<longrightarrow> t Dp ! m = 0x3ECCCCCD)"
proof -
  define h1 where "h1 = soa_alloc junk h"
  have len1: "soa_lengths 64 h1"
    by (simp add: h1_def soa_alloc_lengths)
  from soa_fill_iter [OF len1, of 63] obtain t1
    where t1: "for_iter 1 soa_fill 63 1 h1 = Some t1" "soa_filled h1 64 t1"
    by auto
  have fill: "for_loop 1 64 1 soa_fill h1 = Some t1"
    using for_loop_iter [of 1 1 63 soa_fill h1] t1(1) by simp
  define h2 where "h2 = t1(X := (t1 X)[0 := f32_lit 1 1], Y := (t1 Y)[0 := f32_lit 1 1],
      W := (t1 W)[0 := f32_lit 1 1], Z := (t1 Z)[0 := f32_lit 1 1])"
  from t1(2) len1 have len2: "soa_lengths (4 * 16) h2"
    by (simp add: h2_def soa_filled_def soa_lengths_def)
  have prefix: "soa_dot junk h = dp_kernel 64 h2"
    using fill t1(2) len1
    by (simp add: soa_dot_def h1_def [symmetric] store_f32_Some h2_def soa_filled_def
        soa_lengths_def)
  from dp_kernel_result [OF len2] obtain t
    where t: "dp_kernel 64 h2 = Some t" "\<forall>b. b \<noteq> Dp \<longrightarrow> t b = h2 b" "length (t Dp) = 64"
      and vals: "\<forall>m<64. t Dp ! m =
        dot4 (h2 X ! 0) (h2 Y ! 0) (h2 Z ! 0) (h2 W ! 0)
          (h2 X ! m) (h2 Y ! m) (h2 Z ! m) (h2 W ! m)"
    by auto
  from t1(2) have first: "h2 X ! 0 = 0x3F800000" "h2 Y ! 0 = 0x3F800000"
      "h2 Z ! 0 = 0x3F800000" "h2 W ! 0 = 0x3F800000"
    by (simp_all add: h2_def soa_filled_def soa_lengths_def lit_Suc)
  from t1(2) have later: "h2 X ! m = 0x3DCCCCCD \<and> h2 Y ! m = 0x3DCCCCCD \<and>
      h2 Z ! m = 0x3DCCCCCD \<and> h2 W ! m = 0x3DCCCCCD" if "0 < m" "m < 64" for m
    using that by (simp add: h2_def soa_filled_def lit_Suc)
  from vals first have zero: "t Dp ! 0 = 0x40800000"
    by (simp add: dot4_def one_times_one one_plus_one two_plus_two)
  from vals first later have rest: "t Dp ! m = 0x3ECCCCCD" if "0 < m" "m < 64" for m
    using that by (simp add: dot4_def one_times_tenth tenth_plus_tenth fifth_plus_fifth)
  have other: "t b = h b" if "b \<noteq> X \<and> b \<noteq> Y \<and> b \<noteq> Z \<and> b \<noteq> W \<and> b \<noteq> Dp" for b
    using that t(2) t1(2) by (simp add: h2_def soa_filled_def h1_def soa_alloc_other)
  from t(2) have "t X = h2 X" "t Y = h2 Y" "t Z = h2 Z" "t W = h2 W"
    by simp_all
  with prefix t(1,3) zero rest other first later show ?thesis
    by auto
qed

subsection \<open>The whole program\<close>

lemma main_result:
  "\<exists>t. main junk = Some (t, 0x41000000) \<and>
     t Results ! 0 = 0x40000000 \<and> t Results ! 1 = 0x40000000 \<and>
     t Results ! 2 = 0x40000000 \<and> t Results ! 3 = 0x40000000 \<and>
     t X ! 0 = 0x3F800000 \<and> t Y ! 0 = 0x3F800000 \<and>
     t Z ! 0 = 0x3F800000 \<and> t W ! 0 = 0x3F800000 \<and>
     (\<forall>m. 0 < m \<and> m < 64 \<longrightarrow>
        t X ! m = 0x3DCCCCCD \<and> t Y ! m = 0x3DCCCCCD \<and>
        t Z ! m = 0x3DCCCCCD \<and> t W ! m = 0x3DCCCCCD) \<and>
     length (t Dp) = 64 \<and> t Dp ! 0 = 0x40800000 \<and>
     (\<forall>m. 0 < m \<and> m < 64 \<longrightarrow> t Dp ! m = 0x3ECCCCCD)"
proof -
  from warmup_result [of junk "\<lambda>b. []"] obtain t1
    where t1: "warmup junk (\<lambda>b. []) = Some t1" "length (t1 Results) = 8"
    by blast
  from aos_dot_result [where h = t1 and junk = junk, OF t1(2)] obtain t2
    where t2: "aos_dot junk t1 = Some (t2, 0x41000000)"
      "t2 Results ! 0 = 0x40000000" "t2 Results ! 1 = 0x40000000"
      "t2 Results ! 2 = 0x40000000" "t2 Results ! 3 = 0x40000000"
    by blast
  from soa_dot_result [of junk t2] obtain t3
    where t3: "soa_dot junk t2 = Some t3"
      "\<forall>b. b \<noteq> X \<and> b \<noteq> Y \<and> b \<noteq> Z \<and> b \<noteq> W \<and> b \<noteq> Dp \<longrightarrow> t3 b = t2 b"
      "t3 X ! 0 = 0x3F800000 \<and> t3 Y ! 0 = 0x3F800000 \<and>
       t3 Z ! 0 = 0x3F800000 \<and> t3 W ! 0 = 0x3F800000"
      "\<forall>m. 0 < m \<and> m < 64 \<longrightarrow>
         t3 X ! m = 0x3DCCCCCD \<and> t3 Y ! m = 0x3DCCCCCD \<and>
         t3 Z ! m = 0x3DCCCCCD \<and> t3 W ! m = 0x3DCCCCCD"
      "length (t3 Dp) = 64" "t3 Dp ! 0 = 0x40800000"
      "\<forall>m. 0 < m \<and> m < 64 \<longrightarrow> t3 Dp ! m = 0x3ECCCCCD"
    by blast
  from t3(2) have "t3 Results = t2 Results"
    by simp
  with t1(1) t2 t3(1,3,4,5,6,7) show ?thesis
    by (simp add: main_def)
qed

subsection \<open>The kernel block by block\<close>

lemma those_map_Some:
  "(\<And>k. k \<in> set ks \<Longrightarrow> f k = Some (g k)) \<Longrightarrow> those (map f ks) = Some (map g ks)"
  by (induction ks) simp_all

lemma concat_blocks:
  "concat (map (\<lambda>k. map f [4 * k..<4 * k + 4]) [0..<m]) = map f [0..<4 * m]"
proof (induction m)
  case 0
  show ?case by simp
next
  case (Suc m)
  have "[0..<4 * Suc m] = [0..<4 * m] @ [4 * m..<4 * m + 4]"
    using upt_add_eq_append [of 0 "4 * m" 4] by (simp add: add.commute)
  with Suc show ?case
    by simp
qed

lemma dp_loop_result:
  assumes "soa_lengths (4 * m) h"
  shows "\<exists>t. dp_loop (4 * m) x1 y1 z1 w1 h = Some t \<and> (\<forall>b. b \<noteq> Dp \<longrightarrow> t b = h b) \<and>
     t Dp = map (dp_at x1 y1 z1 w1 h) [0..<4 * m]"
proof -
  from dp_iter_inv [OF assms order_refl] obtain t
    where t: "for_iter 4 (dp_block x1 y1 z1 w1) m 0 h = Some t"
      "dp_inv (4 * m) x1 y1 z1 w1 h (4 * m) t"
    by blast
  from t(2) have "t Dp = map (dp_at x1 y1 z1 w1 h) [0..<4 * m]"
    by (intro nth_equalityI) (simp_all add: dp_inv_def)
  with t show ?thesis
    by (auto simp: dp_loop_iter dp_inv_def)
qed

lemma block_heap_lengths:
  assumes "soa_lengths (4 * m) h" and "k < m"
  shows "soa_lengths (4 * 1) (block_heap h k)"
  using assms by (simp add: soa_lengths_def block_heap_def)

lemma dp_at_block_heap:
  assumes "soa_lengths (4 * m) h" and "k < m" and "j < 4"
  shows "dp_at x1 y1 z1 w1 (block_heap h k) j = dp_at x1 y1 z1 w1 h (4 * k + j)"
proof -
  have "(4 * k + j) mod 4 = j mod 4"
    by simp
  with assms show ?thesis
    by (simp add: dp_at_def block_heap_def soa_lengths_def)
qed

lemma dp_loop_block:
  assumes "soa_lengths (4 * m) h" and "k < m"
  shows "\<exists>s. dp_loop 4 x1 y1 z1 w1 (block_heap h k) = Some s \<and>
     s Dp = map (dp_at x1 y1 z1 w1 h) [4 * k..<4 * k + 4]"
proof -
  from dp_loop_result [OF block_heap_lengths [OF assms], of x1 y1 z1 w1] obtain s
    where s: "dp_loop 4 x1 y1 z1 w1 (block_heap h k) = Some s"
      "s Dp = map (dp_at x1 y1 z1 w1 (block_heap h k)) [0..<4]"
    by auto
  have "map (dp_at x1 y1 z1 w1 (block_heap h k)) [0..<4] =
      map (dp_at x1 y1 z1 w1 h) [4 * k..<4 * k + 4]"
    using dp_at_block_heap [OF assms]
    by (intro nth_equalityI) (simp_all add: add.commute)
  with s show ?thesis
    by simp
qed

lemma dp_loop_blocks:
  assumes "soa_lengths (4 * m) h"
  shows "\<exists>t ts. dp_loop (4 * m) x1 y1 z1 w1 h = Some t \<and>
     those (map (\<lambda>k. dp_loop 4 x1 y1 z1 w1 (block_heap h k)) [0..<m]) = Some ts \<and>
     t Dp = concat (map (\<lambda>s. s Dp) ts)"
proof -
  from dp_loop_result [OF assms, of x1 y1 z1 w1] obtain t
    where t: "dp_loop (4 * m) x1 y1 z1 w1 h = Some t"
      "t Dp = map (dp_at x1 y1 z1 w1 h) [0..<4 * m]"
    by blast
  define g where "g k = the (dp_loop 4 x1 y1 z1 w1 (block_heap h k))" for k
  have g: "dp_loop 4 x1 y1 z1 w1 (block_heap h k) = Some (g k) \<and>
      g k Dp = map (dp_at x1 y1 z1 w1 h) [4 * k..<4 * k + 4]" if "k < m" for k
    using dp_loop_block [OF assms that, of x1 y1 z1 w1] by (auto simp: g_def)
  have "those (map (\<lambda>k. dp_loop 4 x1 y1 z1 w1 (block_heap h k)) [0..<m]) =
      Some (map g [0..<m])"
    using g by (intro those_map_Some) simp
  moreover have "concat (map (\<lambda>s. s Dp) (map g [0..<m])) =
      concat (map (\<lambda>k. map (dp_at x1 y1 z1 w1 h) [4 * k..<4 * k + 4]) [0..<m])"
  proof -
    have "map (\<lambda>s. s Dp) (map g [0..<m]) =
        map (\<lambda>k. map (dp_at x1 y1 z1 w1 h) [4 * k..<4 * k + 4]) [0..<m]"
      using g by (intro nth_equalityI) simp_all
    then show ?thesis
      by (rule arg_cong)
  qed
  ultimately show ?thesis
    using t concat_blocks [of "dp_at x1 y1 z1 w1 h" m] by auto
qed

lemma those_length: "those xs = Some ys \<Longrightarrow> length ys = length xs"
  by (induction xs arbitrary: ys) (auto split: option.splits)

lemma step_heap_lengths: "soa_lengths (4 * 2) step_heap"
  by (simp add: soa_lengths_def step_heap_def)

lemma step_heap_block:
  "block_heap step_heap 1 X = [0x40000000, 0x40000000, 0x40000000, 0x40000000]"
  "block_heap step_heap 1 Y = [0x40000000, 0x40000000, 0x40000000, 0x40000000]"
  "block_heap step_heap 1 Z = [0x40000000, 0x40000000, 0x40000000, 0x40000000]"
  "block_heap step_heap 1 W = [0x40000000, 0x40000000, 0x40000000, 0x40000000]"
  "block_heap step_heap 1 Dp = [0x40000000, 0x40000000, 0x40000000, 0x40000000]"
  by (simp_all add: block_heap_def step_heap_def)

lemma step_heap_full: "\<exists>t. dp_kernel 8 step_heap = Some t \<and> length (t Dp) = 8 \<and>
    t Dp ! 4 = 0x41000000"
proof -
  from dp_kernel_result [OF step_heap_lengths] obtain t
    where t: "dp_kernel (4 * 2) step_heap = Some t" "length (t Dp) = 4 * 2"
      and vals: "\<forall>m<4 * 2. t Dp ! m =
        dot4 (step_heap X ! 0) (step_heap Y ! 0) (step_heap Z ! 0) (step_heap W ! 0)
          (step_heap X ! m) (step_heap Y ! m) (step_heap Z ! m) (step_heap W ! m)"
    by auto
  have "(4::nat) < 4 * 2"
    by simp
  with vals have "t Dp ! 4 =
        dot4 (step_heap X ! 0) (step_heap Y ! 0) (step_heap Z ! 0) (step_heap W ! 0)
          (step_heap X ! 4) (step_heap Y ! 4) (step_heap Z ! 4) (step_heap W ! 4)"
    by blast
  then have "t Dp ! 4 = 0x41000000"
    by (simp add: step_heap_def dot4_def one_times_two two_plus_two four_plus_four)
  with t show ?thesis
    by simp
qed

lemma step_heap_alone: "\<exists>s. dp_kernel 4 (block_heap step_heap 1) = Some s \<and>
    length (s Dp) = 4 \<and> s Dp ! 0 = 0x41800000"
proof -
  have len: "soa_lengths (4 * 1) (block_heap step_heap 1)"
    unfolding soa_lengths_def step_heap_block by simp
  from dp_kernel_result [OF len] obtain s
    where s: "dp_kernel (4 * 1) (block_heap step_heap 1) = Some s" "length (s Dp) = 4 * 1"
      and vals: "\<forall>m<4 * 1. s Dp ! m =
        dot4 (block_heap step_heap 1 X ! 0) (block_heap step_heap 1 Y ! 0)
          (block_heap step_heap 1 Z ! 0) (block_heap step_heap 1 W ! 0)
          (block_heap step_heap 1 X ! m) (block_heap step_heap 1 Y ! m)
          (block_heap step_heap 1 Z ! m) (block_heap step_heap 1 W ! m)"
    by auto
  have "(0::nat) < 4 * 1"
    by simp
  with vals have "s Dp ! 0 =
        dot4 (block_heap step_heap 1 X ! 0) (block_heap step_heap 1 Y ! 0)
          (block_heap step_heap 1 Z ! 0) (block_heap step_heap 1 W ! 0)
          (block_heap step_heap 1 X ! 0) (block_heap step_heap 1 Y ! 0)
          (block_heap step_heap 1 Z ! 0) (block_heap step_heap 1 W ! 0)"
    by blast
  then have "s Dp ! 0 = 0x41800000"
    unfolding step_heap_block
    by (simp add: dot4_def two_times_two four_plus_four eight_plus_eight)
  with s show ?thesis
    by simp
qed

lemma dp_inv_lengths:
  assumes "soa_lengths n h" and "dp_inv n x1 y1 z1 w1 h j s"
  shows "soa_lengths n s"
  using assms by (simp add: soa_lengths_def dp_inv_def)

lemma mm_load1_ps_broadcast:
  assumes "mm_load1_ps h (b, 0) = Some v"
  shows "v = broadcast (h b ! 0) \<and> 0 < length (h b)"
  using assms by (auto simp: mm_load1_ps_def split: if_splits)

lemma unit_heap_lengths: "soa_lengths n (unit_heap n)"
  by (simp add: soa_lengths_def unit_heap_def)

lemma unit_heap_load1:
  "0 < n \<Longrightarrow> mm_load1_ps (unit_heap n) (b, 0) = Some (broadcast 0x3F800000)"
  by (simp add: mm_load1_ps_def unit_heap_def)


section \<open>The claims\<close>

text \<open>
  C1. The kernel on four coordinate arrays and a result array of 64 floats: it runs to
  the end, and every \<^verbatim>\<open>dp[i]\<close>, \<open>i\<close> from 0 to 63 and \<open>i = 0\<close> included, is the sum
  of the four products of element 0 with element \<open>i\<close> of \<^verbatim>\<open>x\<close>, \<^verbatim>\<open>y\<close>, \<^verbatim>\<open>z\<close> and
  \<^verbatim>\<open>w\<close>. Products and sums are those of single-precision arithmetic, each rounded,
  and the sums are taken in the order of the kernel (claim C2).
\<close>

theorem dp_kernel_64_dot_products:
  assumes "soa_lengths 64 h"
  shows "\<exists>t. dp_kernel 64 h = Some t \<and> length (t Dp) = 64 \<and>
     (\<forall>i<64. t Dp ! i =
        f32_add (f32_add (f32_mul (h X ! 0) (h X ! i)) (f32_mul (h Y ! 0) (h Y ! i)))
                (f32_add (f32_mul (h Z ! 0) (h Z ! i)) (f32_mul (h W ! 0) (h W ! i))))"
  using dp_kernel_result [of 16 h] assms by (auto simp: dot4_def)

theorem dp_kernel_64_dot_products_witness:
  "soa_lengths 64 (\<lambda>b. replicate 64 0x3F800000) \<and>
   (\<exists>t. dp_kernel 64 (\<lambda>b. replicate 64 0x3F800000) = Some t \<and> length (t Dp) = 64 \<and>
        t Dp ! 0 = 0x40800000 \<and> t Dp ! 63 = 0x40800000)"
proof -
  have len: "soa_lengths 64 (\<lambda>b. replicate 64 0x3F800000)"
    by (simp add: soa_lengths_def)
  from dp_kernel_64_dot_products [OF len] obtain t
    where t: "dp_kernel 64 (\<lambda>b. replicate 64 0x3F800000) = Some t" "length (t Dp) = 64"
      and all: "\<forall>i<64. t Dp ! i =
        f32_add (f32_add (f32_mul (replicate 64 0x3F800000 ! 0) (replicate 64 0x3F800000 ! i))
                         (f32_mul (replicate 64 0x3F800000 ! 0) (replicate 64 0x3F800000 ! i)))
                (f32_add (f32_mul (replicate 64 0x3F800000 ! 0) (replicate 64 0x3F800000 ! i))
                         (f32_mul (replicate 64 0x3F800000 ! 0) (replicate 64 0x3F800000 ! i)))"
    by blast
  from all have "t Dp ! 0 = 0x40800000" "t Dp ! 63 = 0x40800000"
    by (simp_all add: one_times_one one_plus_one two_plus_two)
  with len t show ?thesis
    by blast
qed

text \<open>
  C2. Every pass of the kernel through the loop body reduces the four registers of
  products with a pairwise tree. With \<open>x1\<close>, \<open>y1\<close>, \<open>z1\<close>, \<open>w1\<close> the registers the
  kernel loads before the loop, and \<open>s\<close> the heap at the head of pass \<open>k\<close>, the body
  stores in lane \<open>j\<close> of block \<open>k\<close> the value
  \<open>(x0 * xi + y0 * yi) + (z0 * zi + w0 * wi)\<close>, the additions associated exactly so.
  The order matters: on \<open>tie_heap\<close> lane 1 receives \<open>2 ^ 24 + 2\<close>, where the fold
  from left to right of the same four products gives \<open>2 ^ 24\<close>.
\<close>

theorem dp_block_pairwise_tree:
  assumes "soa_lengths n h" and "4 * k + 4 \<le> n" and "j < 4"
    and "mm_load1_ps h (X, 0) = Some x1" and "mm_load1_ps h (Y, 0) = Some y1"
    and "mm_load1_ps h (Z, 0) = Some z1" and "mm_load1_ps h (W, 0) = Some w1"
  shows "\<exists>s t. for_iter 4 (dp_block x1 y1 z1 w1) k 0 h = Some s \<and>
     dp_block x1 y1 z1 w1 (4 * k) s = Some t \<and>
     t Dp ! (4 * k + j) =
       f32_add
         (f32_add (f32_mul (h X ! 0) (h X ! (4 * k + j))) (f32_mul (h Y ! 0) (h Y ! (4 * k + j))))
         (f32_add (f32_mul (h Z ! 0) (h Z ! (4 * k + j))) (f32_mul (h W ! 0) (h W ! (4 * k + j))))"
proof -
  from assms(4-7) have regs: "x1 = broadcast (h X ! 0)" "y1 = broadcast (h Y ! 0)"
      "z1 = broadcast (h Z ! 0)" "w1 = broadcast (h W ! 0)"
    by (simp_all add: mm_load1_ps_broadcast)
  from assms(2) have "4 * k \<le> n"
    by simp
  from dp_iter_inv [OF assms(1) this] obtain s
    where s: "for_iter 4 (dp_block x1 y1 z1 w1) k 0 h = Some s"
      "dp_inv n x1 y1 z1 w1 h (4 * k) s"
    by blast
  from dp_block_inv [OF assms(1,2) s(2)] obtain t
    where t: "dp_block x1 y1 z1 w1 (4 * k) s = Some t" "dp_inv n x1 y1 z1 w1 h (4 * k + 4) t"
    by blast
  from t(2) \<open>j < 4\<close> have "t Dp ! (4 * k + j) = dp_at x1 y1 z1 w1 h (4 * k + j)"
    by (simp add: dp_inv_def)
  with s(1) t(1) show ?thesis
    by (simp add: regs dp_at_broadcast dot4_def)
qed

theorem dp_block_pairwise_tree_witness:
  "soa_lengths 4 tie_heap \<and> 4 * 0 + 4 \<le> (4::nat) \<and> (1::nat) < 4 \<and>
   mm_load1_ps tie_heap (X, 0) = Some (broadcast 0x3F800000) \<and>
   mm_load1_ps tie_heap (Y, 0) = Some (broadcast 0x3F800000) \<and>
   mm_load1_ps tie_heap (Z, 0) = Some (broadcast 0x3F800000) \<and>
   mm_load1_ps tie_heap (W, 0) = Some (broadcast 0x3F800000) \<and>
   (\<exists>s t. for_iter 4 (dp_block (broadcast 0x3F800000) (broadcast 0x3F800000)
              (broadcast 0x3F800000) (broadcast 0x3F800000)) 0 0 tie_heap = Some s \<and>
          dp_block (broadcast 0x3F800000) (broadcast 0x3F800000)
              (broadcast 0x3F800000) (broadcast 0x3F800000) (4 * 0) s = Some t \<and>
          t Dp ! (4 * 0 + 1) = 0x4B800001) \<and>
   f32_add (f32_add (f32_add 0x4B800000 0x3F800000) 0x3F800000) 0x3F800000 = 0x4B800000"
proof -
  have len: "soa_lengths 4 tie_heap"
    by (simp add: soa_lengths_def tie_heap_def)
  have ld: "mm_load1_ps tie_heap (X, 0) = Some (broadcast 0x3F800000)"
      "mm_load1_ps tie_heap (Y, 0) = Some (broadcast 0x3F800000)"
      "mm_load1_ps tie_heap (Z, 0) = Some (broadcast 0x3F800000)"
      "mm_load1_ps tie_heap (W, 0) = Some (broadcast 0x3F800000)"
    by (simp_all add: mm_load1_ps_def tie_heap_def)
  have vals: "tie_heap X ! 0 = 0x3F800000" "tie_heap X ! (4 * 0 + 1) = 0x4B800000"
      "tie_heap Y ! 0 = 0x3F800000" "tie_heap Y ! (4 * 0 + 1) = 0x3F800000"
      "tie_heap Z ! 0 = 0x3F800000" "tie_heap Z ! (4 * 0 + 1) = 0x3F800000"
      "tie_heap W ! 0 = 0x3F800000" "tie_heap W ! (4 * 0 + 1) = 0x3F800000"
    by (simp_all add: tie_heap_def)
  have fold: "f32_add (f32_add (f32_add 0x4B800000 0x3F800000) 0x3F800000) 0x3F800000 =
      0x4B800000"
    by (simp add: big_plus_one)
  have "4 * 0 + 4 \<le> (4::nat)" "(1::nat) < 4"
    by simp_all
  from dp_block_pairwise_tree [OF len this ld]
  have "\<exists>s t. for_iter 4 (dp_block (broadcast 0x3F800000) (broadcast 0x3F800000)
              (broadcast 0x3F800000) (broadcast 0x3F800000)) 0 0 tie_heap = Some s \<and>
          dp_block (broadcast 0x3F800000) (broadcast 0x3F800000)
              (broadcast 0x3F800000) (broadcast 0x3F800000) (4 * 0) s = Some t \<and>
          t Dp ! (4 * 0 + 1) = 0x4B800001"
    unfolding vals
    by (simp only: big_times_one one_times_one big_plus_one one_plus_one big_plus_two)
  with len ld fold show ?thesis
    by simp
qed

text \<open>
  C3. Block independence. The kernel run over the whole arrays leaves in \<^verbatim>\<open>dp\<close> the
  concatenation of what the loop of lines 198 to 217 leaves when it is run, for each
  block of four floats, on that block alone with the broadcast registers of the whole
  run, those loaded from element 0 of the whole arrays: the same bit patterns in the
  same order, one run for each of the \<open>m\<close> blocks.
\<close>

theorem dp_kernel_blockwise:
  assumes "soa_lengths (4 * m) h" and "0 < m"
    and "mm_load1_ps h (X, 0) = Some x1" and "mm_load1_ps h (Y, 0) = Some y1"
    and "mm_load1_ps h (Z, 0) = Some z1" and "mm_load1_ps h (W, 0) = Some w1"
  shows "\<exists>t ts. dp_kernel (4 * m) h = Some t \<and>
     those (map (\<lambda>k. dp_loop 4 x1 y1 z1 w1 (block_heap h k)) [0..<m]) = Some ts \<and>
     length ts = m \<and> t Dp = concat (map (\<lambda>s. s Dp) ts)"
proof -
  from assms(3-6) have regs: "x1 = broadcast (h X ! 0)" "y1 = broadcast (h Y ! 0)"
      "z1 = broadcast (h Z ! 0)" "w1 = broadcast (h W ! 0)"
    by (simp_all add: mm_load1_ps_broadcast)
  from assms(1,2) have kernel: "dp_kernel (4 * m) h = dp_loop (4 * m) x1 y1 z1 w1 h"
    by (simp add: dp_kernel_loop regs)
  from dp_loop_blocks [OF assms(1), of x1 y1 z1 w1] obtain t ts
    where t: "dp_loop (4 * m) x1 y1 z1 w1 h = Some t"
      "those (map (\<lambda>k. dp_loop 4 x1 y1 z1 w1 (block_heap h k)) [0..<m]) = Some ts"
      "t Dp = concat (map (\<lambda>s. s Dp) ts)"
    by blast
  from t(2) have "length ts = m"
    using those_length by fastforce
  with kernel t show ?thesis
    by simp
qed

theorem dp_kernel_blockwise_witness:
  "soa_lengths (4 * 2) step_heap \<and> (0::nat) < 2 \<and>
   mm_load1_ps step_heap (X, 0) = Some (broadcast 0x3F800000) \<and>
   mm_load1_ps step_heap (Y, 0) = Some (broadcast 0x3F800000) \<and>
   mm_load1_ps step_heap (Z, 0) = Some (broadcast 0x3F800000) \<and>
   mm_load1_ps step_heap (W, 0) = Some (broadcast 0x3F800000) \<and>
   (\<exists>t ts. dp_kernel (4 * 2) step_heap = Some t \<and>
          those (map (\<lambda>k. dp_loop 4 (broadcast 0x3F800000) (broadcast 0x3F800000)
              (broadcast 0x3F800000) (broadcast 0x3F800000) (block_heap step_heap k))
            [0..<2]) = Some ts \<and>
          length ts = 2 \<and> t Dp = concat (map (\<lambda>s. s Dp) ts) \<and> t Dp ! 4 = 0x41000000)"
proof -
  have ld: "mm_load1_ps step_heap (X, 0) = Some (broadcast 0x3F800000)"
      "mm_load1_ps step_heap (Y, 0) = Some (broadcast 0x3F800000)"
      "mm_load1_ps step_heap (Z, 0) = Some (broadcast 0x3F800000)"
      "mm_load1_ps step_heap (W, 0) = Some (broadcast 0x3F800000)"
    by (simp_all add: mm_load1_ps_def step_heap_def)
  have pos: "(0::nat) < 2"
    by simp
  from dp_kernel_blockwise [OF step_heap_lengths pos ld] obtain t ts
    where t: "dp_kernel (4 * 2) step_heap = Some t"
      "those (map (\<lambda>k. dp_loop 4 (broadcast 0x3F800000) (broadcast 0x3F800000)
          (broadcast 0x3F800000) (broadcast 0x3F800000) (block_heap step_heap k))
        [0..<2]) = Some ts"
      "length ts = 2" "t Dp = concat (map (\<lambda>s. s Dp) ts)"
    by blast
  from step_heap_full t(1) have "t Dp ! 4 = 0x41000000"
    by auto
  with t ld pos show ?thesis
    using step_heap_lengths by blast
qed

text \<open>
  The reference vector has to be that of the whole arrays. The kernel run on a block
  alone takes element 0 of the block for its reference: on \<open>step_heap\<close> the whole run
  leaves 8 in \<^verbatim>\<open>dp[4]\<close>, the product of \<open>(1, 1, 1, 1)\<close> and \<open>(2, 2, 2, 2)\<close>, and the
  kernel on the second block alone leaves 16 in the first float of its result.
\<close>

theorem dp_kernel_block_alone:
  "read_after (dp_kernel 8 step_heap) (Dp, 4) = Some 0x41000000 \<and>
   read_after (dp_kernel 4 (block_heap step_heap 1)) (Dp, 0) = Some 0x41800000"
proof -
  from step_heap_full obtain t
    where "dp_kernel 8 step_heap = Some t" "length (t Dp) = 8" "t Dp ! 4 = 0x41000000"
    by blast
  then have "read_after (dp_kernel 8 step_heap) (Dp, 4) = Some 0x41000000"
    by (simp add: read_after_def load_f32_def)
  moreover from step_heap_alone obtain s
    where "dp_kernel 4 (block_heap step_heap 1) = Some s" "length (s Dp) = 4"
      "s Dp ! 0 = 0x41800000"
    by blast
  then have "read_after (dp_kernel 4 (block_heap step_heap 1)) (Dp, 0) = Some 0x41800000"
    by (simp add: read_after_def load_f32_def)
  ultimately show ?thesis
    by simp
qed

text \<open>
  C4. For every length \<open>n\<close> that is a multiple of 4 and at least 4, and whatever floats
  the arrays hold, the kernel leaves in \<^verbatim>\<open>dp[0]\<close> the squared magnitude of the
  reference vector: the sum of the squares of \<^verbatim>\<open>x[0]\<close>, \<^verbatim>\<open>y[0]\<close>, \<^verbatim>\<open>z[0]\<close> and
  \<^verbatim>\<open>w[0]\<close>, in single-precision arithmetic and in the kernel's order of additions.
\<close>

theorem dp_kernel_squared_magnitude:
  assumes "soa_lengths n h" and "4 dvd n" and "4 \<le> n"
  shows "\<exists>t. dp_kernel n h = Some t \<and>
     t Dp ! 0 =
       f32_add (f32_add (f32_mul (h X ! 0) (h X ! 0)) (f32_mul (h Y ! 0) (h Y ! 0)))
               (f32_add (f32_mul (h Z ! 0) (h Z ! 0)) (f32_mul (h W ! 0) (h W ! 0)))"
proof -
  from assms(2,3) obtain k where k: "n = 4 * k" "0 < k"
    by (auto elim: dvdE)
  from dp_kernel_result [of k h] assms(1) k show ?thesis
    by (auto simp: dot4_def)
qed

theorem dp_kernel_squared_magnitude_witness:
  "soa_lengths 8 (unit_heap 8) \<and> (4::nat) dvd 8 \<and> (4::nat) \<le> 8 \<and>
   (\<exists>t. dp_kernel 8 (unit_heap 8) = Some t \<and> t Dp ! 0 = 0x40800000)"
proof -
  have "(4::nat) dvd 8" "(4::nat) \<le> 8"
    by simp_all
  from dp_kernel_squared_magnitude [OF unit_heap_lengths this]
  have "\<exists>t. dp_kernel 8 (unit_heap 8) = Some t \<and> t Dp ! 0 = 0x40800000"
    by (simp add: unit_heap_def one_times_one one_plus_one two_plus_two)
  then show ?thesis
    by (simp add: unit_heap_lengths)
qed

text \<open>
  C5. The kernel writes to \<^verbatim>\<open>dp\<close> only. Every other buffer, the four coordinate arrays
  among them, has the contents it had before, at the end and at the head of every pass
  through the loop; in particular element 0 of each coordinate array keeps its value,
  and loading the broadcast registers again at any pass would give the registers the
  kernel loaded before the loop.
\<close>

theorem dp_kernel_frame:
  assumes "soa_lengths n h" and "4 dvd n" and "4 \<le> n"
    and "mm_load1_ps h (X, 0) = Some x1" and "mm_load1_ps h (Y, 0) = Some y1"
    and "mm_load1_ps h (Z, 0) = Some z1" and "mm_load1_ps h (W, 0) = Some w1"
  shows "(\<exists>t. dp_kernel n h = Some t \<and> (\<forall>b. b \<noteq> Dp \<longrightarrow> t b = h b)) \<and>
     dp_kernel n h = for_iter 4 (dp_block x1 y1 z1 w1) (n div 4) 0 h \<and>
     (\<forall>k\<le>n div 4. \<exists>s. for_iter 4 (dp_block x1 y1 z1 w1) k 0 h = Some s \<and>
        (\<forall>b. b \<noteq> Dp \<longrightarrow> s b = h b) \<and>
        mm_load1_ps s (X, 0) = Some x1 \<and> mm_load1_ps s (Y, 0) = Some y1 \<and>
        mm_load1_ps s (Z, 0) = Some z1 \<and> mm_load1_ps s (W, 0) = Some w1)"
proof -
  from assms(2,3) obtain m where m: "n = 4 * m" "0 < m"
    by (auto elim: dvdE)
  from assms(4-7) have regs: "x1 = broadcast (h X ! 0)" "y1 = broadcast (h Y ! 0)"
      "z1 = broadcast (h Z ! 0)" "w1 = broadcast (h W ! 0)"
    by (simp_all add: mm_load1_ps_broadcast)
  from assms(1) m have kernel: "dp_kernel n h = for_iter 4 (dp_block x1 y1 z1 w1) m 0 h"
    by (simp add: dp_kernel_loop dp_loop_iter regs)
  have iter: "\<exists>s. for_iter 4 (dp_block x1 y1 z1 w1) k 0 h = Some s \<and>
      (\<forall>b. b \<noteq> Dp \<longrightarrow> s b = h b) \<and>
      mm_load1_ps s (X, 0) = Some x1 \<and> mm_load1_ps s (Y, 0) = Some y1 \<and>
      mm_load1_ps s (Z, 0) = Some z1 \<and> mm_load1_ps s (W, 0) = Some w1" if "k \<le> m" for k
  proof -
    from that m have "4 * k \<le> n"
      by simp
    from dp_iter_inv [OF assms(1) this] obtain s
      where s: "for_iter 4 (dp_block x1 y1 z1 w1) k 0 h = Some s"
        "dp_inv n x1 y1 z1 w1 h (4 * k) s"
      by blast
    from s(2) have same: "\<forall>b. b \<noteq> Dp \<longrightarrow> s b = h b"
      by (simp add: dp_inv_def)
    then have "s X = h X" "s Y = h Y" "s Z = h Z" "s W = h W"
      by simp_all
    with assms(4-7) have "mm_load1_ps s (X, 0) = Some x1" "mm_load1_ps s (Y, 0) = Some y1"
        "mm_load1_ps s (Z, 0) = Some z1" "mm_load1_ps s (W, 0) = Some w1"
      by (simp_all add: mm_load1_ps_def split: if_splits)
    with s(1) same show ?thesis
      by blast
  qed
  from iter [of m] kernel have "\<exists>t. dp_kernel n h = Some t \<and> (\<forall>b. b \<noteq> Dp \<longrightarrow> t b = h b)"
    by auto
  with kernel iter m show ?thesis
    by simp
qed

theorem dp_kernel_frame_witness:
  "soa_lengths 8 (unit_heap 8) \<and> (4::nat) dvd 8 \<and> (4::nat) \<le> 8 \<and>
   mm_load1_ps (unit_heap 8) (X, 0) = Some (broadcast 0x3F800000) \<and>
   mm_load1_ps (unit_heap 8) (Y, 0) = Some (broadcast 0x3F800000) \<and>
   mm_load1_ps (unit_heap 8) (Z, 0) = Some (broadcast 0x3F800000) \<and>
   mm_load1_ps (unit_heap 8) (W, 0) = Some (broadcast 0x3F800000) \<and>
   (\<exists>t. dp_kernel 8 (unit_heap 8) = Some t \<and> t X = unit_heap 8 X \<and> t Y = unit_heap 8 Y \<and>
        t Z = unit_heap 8 Z \<and> t W = unit_heap 8 W) \<and>
   (\<exists>s. for_iter 4 (dp_block (broadcast 0x3F800000) (broadcast 0x3F800000)
            (broadcast 0x3F800000) (broadcast 0x3F800000)) 1 0 (unit_heap 8) = Some s \<and>
        s X = unit_heap 8 X \<and>
        mm_load1_ps s (X, 0) = Some (broadcast 0x3F800000))"
proof -
  have d: "(4::nat) dvd 8" "(4::nat) \<le> 8"
    by simp_all
  have ld: "mm_load1_ps (unit_heap 8) (X, 0) = Some (broadcast 0x3F800000)"
      "mm_load1_ps (unit_heap 8) (Y, 0) = Some (broadcast 0x3F800000)"
      "mm_load1_ps (unit_heap 8) (Z, 0) = Some (broadcast 0x3F800000)"
      "mm_load1_ps (unit_heap 8) (W, 0) = Some (broadcast 0x3F800000)"
    by (simp_all add: unit_heap_load1)
  note frame = dp_kernel_frame [where n = 8 and h = "unit_heap 8", OF unit_heap_lengths d ld]
  from frame have "\<exists>t. dp_kernel 8 (unit_heap 8) = Some t \<and> t X = unit_heap 8 X \<and>
      t Y = unit_heap 8 Y \<and> t Z = unit_heap 8 Z \<and> t W = unit_heap 8 W"
    by auto
  moreover have "(1::nat) \<le> 8 div 4"
    by simp
  with frame have "\<exists>s. for_iter 4 (dp_block (broadcast 0x3F800000) (broadcast 0x3F800000)
            (broadcast 0x3F800000) (broadcast 0x3F800000)) 1 0 (unit_heap 8) = Some s \<and>
        s X = unit_heap 8 X \<and> mm_load1_ps s (X, 0) = Some (broadcast 0x3F800000)"
    by blast
  ultimately show ?thesis
    using d ld by (simp add: unit_heap_lengths)
qed

text \<open>
  C6. The scenario \<^verbatim>\<open>main\<close> sets up: the reference vector is \<open>(1, 1, 1, 1)\<close> and each of
  the other 63 vectors is \<^verbatim>\<open>(0.1f, 0.1f, 0.1f, 0.1f)\<close>. The program runs to the end,
  \<^verbatim>\<open>dp[0]\<close> is 4 exactly, and every other \<^verbatim>\<open>dp[i]\<close> is within \<open>10 ^ -6\<close> of 0.4.
\<close>

theorem main_soa_scenario:
  "\<exists>t p. main junk = Some (t, p) \<and> length (t Dp) = 64 \<and>
     f32_val (t X ! 0) = 1 \<and> f32_val (t Y ! 0) = 1 \<and>
     f32_val (t Z ! 0) = 1 \<and> f32_val (t W ! 0) = 1 \<and>
     f32_val (t Dp ! 0) = 4 \<and>
     (\<forall>i. 0 < i \<and> i < 64 \<longrightarrow>
        t X ! i = f32_lit 1 10 \<and> t Y ! i = f32_lit 1 10 \<and>
        t Z ! i = f32_lit 1 10 \<and> t W ! i = f32_lit 1 10 \<and>
        \<bar>f32_val (t Dp ! i) - 4 / 10\<bar> < 1 / 10 ^ 6)"
proof -
  from main_result [of junk] obtain t
    where t: "main junk = Some (t, 0x41000000)" "length (t Dp) = 64"
      "t X ! 0 = 0x3F800000 \<and> t Y ! 0 = 0x3F800000 \<and>
       t Z ! 0 = 0x3F800000 \<and> t W ! 0 = 0x3F800000"
      "t Dp ! 0 = 0x40800000"
      and rest: "\<forall>m. 0 < m \<and> m < 64 \<longrightarrow>
        t X ! m = 0x3DCCCCCD \<and> t Y ! m = 0x3DCCCCCD \<and>
        t Z ! m = 0x3DCCCCCD \<and> t W ! m = 0x3DCCCCCD"
        "\<forall>m. 0 < m \<and> m < 64 \<longrightarrow> t Dp ! m = 0x3ECCCCCD"
    by blast
  from rest have "\<forall>i. 0 < i \<and> i < 64 \<longrightarrow>
        t X ! i = f32_lit 1 10 \<and> t Y ! i = f32_lit 1 10 \<and>
        t Z ! i = f32_lit 1 10 \<and> t W ! i = f32_lit 1 10 \<and>
        \<bar>f32_val (t Dp ! i) - 4 / 10\<bar> < 1 / 10 ^ 6"
    using val_four_tenths_err by (simp add: lit_Suc)
  with t show ?thesis
    by (simp add: val_unit val_four)
qed

theorem main_soa_scenario_witness:
  "\<exists>t p. main (\<lambda>b i. 0) = Some (t, p) \<and> length (t Dp) = 64 \<and>
     f32_val (t X ! 0) = 1 \<and> f32_val (t Dp ! 0) = 4 \<and>
     t X ! 63 = 0x3DCCCCCD \<and> \<bar>f32_val (t Dp ! 63) - 4 / 10\<bar> < 1 / 10 ^ 6"
proof -
  from main_soa_scenario [of "\<lambda>b i. 0"] obtain t p
    where t: "main (\<lambda>b i. 0) = Some (t, p)" "length (t Dp) = 64"
      "f32_val (t X ! 0) = 1" "f32_val (t Dp ! 0) = 4"
      and all: "\<forall>i. 0 < i \<and> i < 64 \<longrightarrow>
        t X ! i = f32_lit 1 10 \<and> t Y ! i = f32_lit 1 10 \<and>
        t Z ! i = f32_lit 1 10 \<and> t W ! i = f32_lit 1 10 \<and>
        \<bar>f32_val (t Dp ! i) - 4 / 10\<bar> < 1 / 10 ^ 6"
    by blast
  have "(0::nat) < 63 \<and> (63::nat) < 64"
    by simp
  with all have "t X ! 63 = f32_lit 1 10" "\<bar>f32_val (t Dp ! 63) - 4 / 10\<bar> < 1 / 10 ^ 6"
    by blast+
  with t show ?thesis
    by (auto simp: lit_Suc)
qed

text \<open>
  C7. Reference-vector identity. When every element of each coordinate array equals
  the element at index 0 of that array, every element of \<^verbatim>\<open>dp\<close> is the squared
  magnitude of the reference vector.
\<close>

theorem dp_kernel_identical_vectors:
  assumes "soa_lengths n h" and "4 dvd n" and "4 \<le> n"
    and "\<forall>i<n. h X ! i = h X ! 0 \<and> h Y ! i = h Y ! 0 \<and> h Z ! i = h Z ! 0 \<and> h W ! i = h W ! 0"
  shows "\<exists>t. dp_kernel n h = Some t \<and> length (t Dp) = n \<and>
     (\<forall>i<n. t Dp ! i =
        f32_add (f32_add (f32_mul (h X ! 0) (h X ! 0)) (f32_mul (h Y ! 0) (h Y ! 0)))
                (f32_add (f32_mul (h Z ! 0) (h Z ! 0)) (f32_mul (h W ! 0) (h W ! 0))))"
proof -
  from assms(2,3) obtain k where k: "n = 4 * k" "0 < k"
    by (auto elim: dvdE)
  from dp_kernel_result [of k h] assms(1) k obtain t
    where t: "dp_kernel n h = Some t" "length (t Dp) = n"
      and vals: "\<forall>m<n. t Dp ! m =
        dot4 (h X ! 0) (h Y ! 0) (h Z ! 0) (h W ! 0) (h X ! m) (h Y ! m) (h Z ! m) (h W ! m)"
    by auto
  have "t Dp ! i =
      f32_add (f32_add (f32_mul (h X ! 0) (h X ! 0)) (f32_mul (h Y ! 0) (h Y ! 0)))
              (f32_add (f32_mul (h Z ! 0) (h Z ! 0)) (f32_mul (h W ! 0) (h W ! 0)))"
    if "i < n" for i
  proof -
    from assms(4) that have "h X ! i = h X ! 0" "h Y ! i = h Y ! 0" "h Z ! i = h Z ! 0"
        "h W ! i = h W ! 0"
      by blast+
    with vals that show ?thesis
      by (simp add: dot4_def)
  qed
  with t show ?thesis
    by blast
qed

theorem dp_kernel_identical_vectors_witness:
  "soa_lengths 8 (unit_heap 8) \<and> (4::nat) dvd 8 \<and> (4::nat) \<le> 8 \<and>
   unit_heap 8 X ! 5 = unit_heap 8 X ! 0 \<and> unit_heap 8 Y ! 5 = unit_heap 8 Y ! 0 \<and>
   unit_heap 8 Z ! 5 = unit_heap 8 Z ! 0 \<and> unit_heap 8 W ! 5 = unit_heap 8 W ! 0 \<and>
   (\<exists>t. dp_kernel 8 (unit_heap 8) = Some t \<and> length (t Dp) = 8 \<and>
        t Dp ! 0 = 0x40800000 \<and> t Dp ! 5 = 0x40800000)"
proof -
  have d: "(4::nat) dvd 8" "(4::nat) \<le> 8"
    by simp_all
  have nth: "unit_heap 8 b ! i = 0x3F800000" if "i < 8" for b i
    using that by (simp add: unit_heap_def)
  have same: "\<forall>i<8. unit_heap 8 X ! i = unit_heap 8 X ! 0 \<and>
      unit_heap 8 Y ! i = unit_heap 8 Y ! 0 \<and> unit_heap 8 Z ! i = unit_heap 8 Z ! 0 \<and>
      unit_heap 8 W ! i = unit_heap 8 W ! 0"
    by (simp add: nth)
  have sq: "f32_add (f32_add (f32_mul (unit_heap 8 X ! 0) (unit_heap 8 X ! 0))
                         (f32_mul (unit_heap 8 Y ! 0) (unit_heap 8 Y ! 0)))
                (f32_add (f32_mul (unit_heap 8 Z ! 0) (unit_heap 8 Z ! 0))
                         (f32_mul (unit_heap 8 W ! 0) (unit_heap 8 W ! 0))) = 0x40800000"
    by (simp add: nth one_times_one one_plus_one two_plus_two)
  from dp_kernel_identical_vectors [where n = 8 and h = "unit_heap 8",
      OF unit_heap_lengths d same]
  have "\<exists>t. dp_kernel 8 (unit_heap 8) = Some t \<and> length (t Dp) = 8 \<and>
      (\<forall>i<8. t Dp ! i = 0x40800000)"
    unfolding sq .
  then have "\<exists>t. dp_kernel 8 (unit_heap 8) = Some t \<and> length (t Dp) = 8 \<and>
      t Dp ! 0 = 0x40800000 \<and> t Dp ! 5 = 0x40800000"
    by auto
  with d show ?thesis
    by (simp add: unit_heap_lengths nth)
qed

text \<open>
  C8. The element-wise addition. The program fills \<^verbatim>\<open>foo[i]\<close> with \<open>i\<close> and \<^verbatim>\<open>bar[i]\<close>
  with \<^verbatim>\<open>i * 0.1f\<close>, for \<open>i\<close> from 0 to 7, and the loop leaves in \<^verbatim>\<open>results[i]\<close> the
  single-precision sum of the two. That sum is the float nearest to \<open>i * 1.1\<close>, less
  than \<open>10 ^ -6\<close> away from it, for every \<open>i\<close> from 0 to 7, and it is \<open>i * 1.1\<close>
  exactly where that number is a float: 0 at \<open>i = 0\<close> and 5.5 at \<open>i = 5\<close>.
\<close>

theorem warmup_results:
  "\<exists>t. warmup junk h = Some t \<and> length (t Results) = 8 \<and>
     (\<forall>i<8. t Foo ! i = f32_of_int (int i) \<and>
             t Bar ! i = f32_mul (f32_of_int (int i)) (f32_lit 1 10) \<and>
             t Results ! i = f32_add (t Foo ! i) (t Bar ! i) \<and>
             t Results ! i = f32_lit (11 * i) 10 \<and>
             \<bar>f32_val (t Results ! i) - 11 * real i / 10\<bar> < 1 / 10 ^ 6) \<and>
     f32_val (t Results ! 0) = 0 \<and> f32_val (t Results ! 5) = 11 / 2"
proof -
  from warmup_result [of junk h] obtain t
    where t: "warmup junk h = Some t" "length (t Results) = 8"
      and vals: "\<forall>m<8. t Foo ! m = f32_of_int (int m) \<and>
             t Bar ! m = f32_mul (f32_of_int (int m)) (f32_lit 1 10) \<and>
             t Results ! m =
               f32_add (f32_of_int (int m)) (f32_mul (f32_of_int (int m)) (f32_lit 1 10))"
    by blast
  have each: "t Foo ! i = f32_of_int (int i) \<and>
             t Bar ! i = f32_mul (f32_of_int (int i)) (f32_lit 1 10) \<and>
             t Results ! i = f32_add (t Foo ! i) (t Bar ! i) \<and>
             t Results ! i = f32_lit (11 * i) 10 \<and>
             \<bar>f32_val (t Results ! i) - 11 * real i / 10\<bar> < 1 / 10 ^ 6" if "i < 8" for i
    using vals that warmup_value [OF that] by simp
  have small: "(0::nat) < 8" "(5::nat) < 8"
    by simp_all
  from each [OF small(1)] have "t Results ! 0 = f32_lit (11 * 0) 10"
    by blast
  then have "f32_val (t Results ! 0) = 0"
    by (simp add: eleven_tenths_zero results_val_zero)
  moreover from each [OF small(2)] have "t Results ! 5 = f32_lit (11 * 5) 10"
    by blast
  then have "f32_val (t Results ! 5) = 11 / 2"
    by (simp add: eleven_tenths_five results_val_five)
  ultimately show ?thesis
    using t each by blast
qed

theorem warmup_results_witness:
  "\<exists>t. warmup (\<lambda>b i. 0) (\<lambda>b. []) = Some t \<and> length (t Results) = 8 \<and>
     t Foo ! 3 = 0x40400000 \<and> t Bar ! 3 = 0x3E99999A \<and> t Results ! 3 = 0x40533333 \<and>
     f32_lit (11 * 3) 10 = 0x40533333 \<and>
     \<bar>f32_val (t Results ! 3) - 11 * 3 / 10\<bar> < 1 / 10 ^ 6 \<and>
     f32_val (t Results ! 0) = 0 \<and> f32_val (t Results ! 5) = 11 / 2"
proof -
  from warmup_results [of "\<lambda>b i. 0" "\<lambda>b. []"] obtain t
    where t: "warmup (\<lambda>b i. 0) (\<lambda>b. []) = Some t" "length (t Results) = 8"
      "f32_val (t Results ! 0) = 0" "f32_val (t Results ! 5) = 11 / 2"
      and all: "\<forall>i<8. t Foo ! i = f32_of_int (int i) \<and>
             t Bar ! i = f32_mul (f32_of_int (int i)) (f32_lit 1 10) \<and>
             t Results ! i = f32_add (t Foo ! i) (t Bar ! i) \<and>
             t Results ! i = f32_lit (11 * i) 10 \<and>
             \<bar>f32_val (t Results ! i) - 11 * real i / 10\<bar> < 1 / 10 ^ 6"
    by blast
  have "(3::nat) < 8"
    by simp
  with all have three: "t Foo ! 3 = f32_of_int (int 3)"
      "t Bar ! 3 = f32_mul (f32_of_int (int 3)) (f32_lit 1 10)"
      "t Results ! 3 = f32_lit (11 * 3) 10"
      "\<bar>f32_val (t Results ! 3) - 11 * real 3 / 10\<bar> < 1 / 10 ^ 6"
    by blast+
  from three have "t Foo ! 3 = 0x40400000" "t Bar ! 3 = 0x3E99999A"
      "t Results ! 3 = 0x40533333" "f32_lit (11 * 3) 10 = 0x40533333"
      "\<bar>f32_val (t Results ! 3) - 11 * 3 / 10\<bar> < 1 / 10 ^ 6"
    by (simp_all add: lit_Suc foo_three bar_three eleven_tenths_three)
  with t show ?thesis
    by blast
qed

text \<open>
  The buffers of the element-wise addition hold 8 floats. After the run
  \<^verbatim>\<open>results[5]\<close> is 5.5 and \<^verbatim>\<open>results[7]\<close>, the last element, is the float nearest to
  7.7; there is no \<^verbatim>\<open>results[10]\<close> to read.
\<close>

theorem warmup_no_element_10:
  "read_after (warmup zero_junk empty_heap) (Results, 5) = Some 0x40B00000 \<and>
   read_after (warmup zero_junk empty_heap) (Results, 7) = Some 0x40F66666 \<and>
   read_after (warmup zero_junk empty_heap) (Results, 10) = None"
proof -
  from warmup_result [of zero_junk empty_heap] obtain t
    where t: "warmup zero_junk empty_heap = Some t" "length (t Results) = 8"
      and vals: "\<forall>m<8. t Foo ! m = f32_of_int (int m) \<and>
             t Bar ! m = f32_mul (f32_of_int (int m)) (f32_lit 1 10) \<and>
             t Results ! m =
               f32_add (f32_of_int (int m)) (f32_mul (f32_of_int (int m)) (f32_lit 1 10))"
    by blast
  have "(5::nat) < 8" "(7::nat) < 8"
    by simp_all
  with vals have "t Results ! 5 =
      f32_add (f32_of_int (int 5)) (f32_mul (f32_of_int (int 5)) (f32_lit 1 10))"
    "t Results ! 7 =
      f32_add (f32_of_int (int 7)) (f32_mul (f32_of_int (int 7)) (f32_lit 1 10))"
    by blast+
  then have "t Results ! 5 = 0x40B00000" "t Results ! 7 = 0x40F66666"
    by (simp_all add: lit_Suc foo_five bar_five results_five foo_seven bar_seven
        results_seven)
  with t show ?thesis
    by (simp add: read_after_def load_f32_def)
qed

text \<open>
  C9. Every access of the loop of the kernel is in bounds. On buffers of 64 floats, as
  lines 156 to 161 allocate them, the kernel returns a heap, so that no load and no
  store has failed; and at the head of each of the 16 passes, with block start \<open>4 * k\<close>
  from 0 to 60, the indices \<open>4 * k\<close> to \<open>4 * k + 3\<close> lie within each of the five buffers
  and the four loads and the store of the pass succeed.
\<close>

theorem dp_kernel_64_in_bounds:
  assumes "soa_lengths 64 h"
  shows "(\<exists>t. dp_kernel 64 h = Some t) \<and>
     (\<forall>k<16. \<exists>s. for_iter 4 (dp_block x1 y1 z1 w1) k 0 h = Some s \<and>
        4 * k + 3 < length (s X) \<and> 4 * k + 3 < length (s Y) \<and> 4 * k + 3 < length (s Z) \<and>
        4 * k + 3 < length (s W) \<and> 4 * k + 3 < length (s Dp) \<and>
        (\<exists>v. mm_load_ps s (X, 4 * k) = Some v) \<and> (\<exists>v. mm_load_ps s (Y, 4 * k) = Some v) \<and>
        (\<exists>v. mm_load_ps s (Z, 4 * k) = Some v) \<and> (\<exists>v. mm_load_ps s (W, 4 * k) = Some v) \<and>
        (\<exists>t. mm_store_ps s (Dp, 4 * k) v = Some t))"
proof -
  have len: "soa_lengths (4 * 16) h"
    using assms by simp
  from dp_kernel_result [OF len] have "\<exists>t. dp_kernel 64 h = Some t"
    by auto
  moreover have "\<exists>s. for_iter 4 (dp_block x1 y1 z1 w1) k 0 h = Some s \<and>
        4 * k + 3 < length (s X) \<and> 4 * k + 3 < length (s Y) \<and> 4 * k + 3 < length (s Z) \<and>
        4 * k + 3 < length (s W) \<and> 4 * k + 3 < length (s Dp) \<and>
        (\<exists>v. mm_load_ps s (X, 4 * k) = Some v) \<and> (\<exists>v. mm_load_ps s (Y, 4 * k) = Some v) \<and>
        (\<exists>v. mm_load_ps s (Z, 4 * k) = Some v) \<and> (\<exists>v. mm_load_ps s (W, 4 * k) = Some v) \<and>
        (\<exists>t. mm_store_ps s (Dp, 4 * k) v = Some t)" if "k < 16" for k
  proof -
    from that have "4 * k \<le> 64"
      by simp
    from dp_iter_inv [OF assms this] obtain s
      where s: "for_iter 4 (dp_block x1 y1 z1 w1) k 0 h = Some s"
        "dp_inv 64 x1 y1 z1 w1 h (4 * k) s"
      by blast
    from dp_inv_lengths [OF assms s(2)] that s(1) show ?thesis
      by (simp add: soa_lengths_def mm_load_ps_def mm_store_ps_def)
  qed
  ultimately show ?thesis
    by blast
qed

theorem dp_kernel_64_in_bounds_witness:
  "soa_lengths 64 (unit_heap 64) \<and> (\<exists>t. dp_kernel 64 (unit_heap 64) = Some t) \<and>
   (\<exists>s. for_iter 4 (dp_block (broadcast 0x3F800000) (broadcast 0x3F800000)
            (broadcast 0x3F800000) (broadcast 0x3F800000)) 15 0 (unit_heap 64) = Some s \<and>
        4 * 15 + 3 < length (s X) \<and> 4 * 15 + 3 < length (s Dp) \<and>
        (\<exists>v. mm_load_ps s (X, 4 * 15) = Some v) \<and>
        (\<exists>t. mm_store_ps s (Dp, 4 * 15) (broadcast 0) = Some t))"
proof -
  note bounds = dp_kernel_64_in_bounds [where h = "unit_heap 64"
      and ?x1.0 = "broadcast 0x3F800000" and ?y1.0 = "broadcast 0x3F800000"
      and ?z1.0 = "broadcast 0x3F800000" and ?w1.0 = "broadcast 0x3F800000"
      and v = "broadcast 0", OF unit_heap_lengths]
  have "(15::nat) < 16"
    by simp
  with bounds have "\<exists>s. for_iter 4 (dp_block (broadcast 0x3F800000) (broadcast 0x3F800000)
            (broadcast 0x3F800000) (broadcast 0x3F800000)) 15 0 (unit_heap 64) = Some s \<and>
        4 * 15 + 3 < length (s X) \<and> 4 * 15 + 3 < length (s Dp) \<and>
        (\<exists>v. mm_load_ps s (X, 4 * 15) = Some v) \<and>
        (\<exists>t. mm_store_ps s (Dp, 4 * 15) (broadcast 0) = Some t)"
    by blast
  with bounds show ?thesis
    by (simp add: unit_heap_lengths)
qed

text \<open>
  C10. The single dot product on the array of structures. The lane-wise products of
  \<open>(1, 1, 1, 1)\<close> and \<open>(2, 2, 2, 2)\<close> are stored in \<^verbatim>\<open>results[0..3]\<close>, each 2; the sums
  \<^verbatim>\<open>results[0] + results[1]\<close> and \<^verbatim>\<open>results[2] + results[3]\<close> are 4; and \<^verbatim>\<open>product\<close>, the
  sum of the two, is 8 exactly. Nothing after line 136 writes to \<^verbatim>\<open>results\<close>, so the
  final heap still holds the four products.
\<close>

theorem main_aos_product:
  "\<exists>t p. main junk = Some (t, p) \<and>
     p = f32_add (f32_add (t Results ! 0) (t Results ! 1))
                 (f32_add (t Results ! 2) (t Results ! 3)) \<and>
     t Results ! 0 = f32_mul (f32_lit 1 1) (f32_lit 2 1) \<and>
     t Results ! 1 = f32_mul (f32_lit 1 1) (f32_lit 2 1) \<and>
     t Results ! 2 = f32_mul (f32_lit 1 1) (f32_lit 2 1) \<and>
     t Results ! 3 = f32_mul (f32_lit 1 1) (f32_lit 2 1) \<and>
     f32_val (f32_lit 1 1) = 1 \<and> f32_val (f32_lit 2 1) = 2 \<and>
     f32_val (t Results ! 0) = 2 \<and> f32_val (t Results ! 1) = 2 \<and>
     f32_val (t Results ! 2) = 2 \<and> f32_val (t Results ! 3) = 2 \<and>
     f32_val (f32_add (t Results ! 0) (t Results ! 1)) = 4 \<and>
     f32_val (f32_add (t Results ! 2) (t Results ! 3)) = 4 \<and>
     f32_val p = 8 \<and> p = 0x41000000"
proof -
  from main_result [of junk] obtain t
    where "main junk = Some (t, 0x41000000)"
      "t Results ! 0 = 0x40000000" "t Results ! 1 = 0x40000000"
      "t Results ! 2 = 0x40000000" "t Results ! 3 = 0x40000000"
    by blast
  then show ?thesis
    by (simp add: lit_Suc one_times_two two_plus_two four_plus_four val_unit val_two
        val_four val_eight)
qed

end
